theory Spec2Isabelle
  imports Main
begin

text \<open>
  The move-files and delete-file edge functions of the repository manager, embedded as
  functions over an explicit state: \<open>moveSingleFile\<close>, \<open>listFilesRecursively\<close> and
  the request loop of \<^verbatim>\<open>supabase/functions/move-files/index.ts\<close>, the delete handler
  with its tree rewrite, the error sanitizer and the shared validation schemas. The remote
  host is a parameter of every function; each \<open>fetch\<close> is recorded in a log, so that
  what a handler has asked of the host, and in which order, can be stated and proved.
  Exceptions are values (\<open>Inl\<close>), and a recursion that the host's answers could
  keep going is bounded by fuel, \<open>None\<close> being the run that has not returned.
  Left out: what is written to the console, the request headers (the same on every call
  of a request), and a body that is not JSON.
\<close>

section \<open>String operations of the handlers\<close>

text \<open>
  The edge functions are TypeScript; paths, content ids and messages are strings.
  Each JavaScript string method the handlers call is given here as a total function
  on \<open>string\<close>, with the result JavaScript gives. A string is a list of characters,
  and its length is the number of them.
\<close>

type_synonym path = string

text \<open>\<^verbatim>\<open>s.startsWith(p)\<close>\<close>

definition startsWith :: "string \<Rightarrow> string \<Rightarrow> bool" where
  "startsWith s p = (take (length p) s = p)"

text \<open>\<^verbatim>\<open>s.endsWith(p)\<close>\<close>

definition endsWith :: "string \<Rightarrow> string \<Rightarrow> bool" where
  "endsWith s p = (length p \<le> length s \<and> drop (length s - length p) s = p)"

text \<open>\<^verbatim>\<open>s.includes(p)\<close>\<close>

fun includes_str :: "string \<Rightarrow> string \<Rightarrow> bool" where
  "includes_str [] p = (p = [])"
| "includes_str (c # cs) p = (startsWith (c # cs) p \<or> includes_str cs p)"

text \<open>\<^verbatim>\<open>s.split(sep)\<close> for a one-character separator: never the empty array.\<close>

fun split :: "string \<Rightarrow> char \<Rightarrow> string list" where
  "split [] sep = [[]]"
| "split (c # cs) sep =
     (if c = sep then [] # split cs sep
      else (case split cs sep of
              [] \<Rightarrow> [[c]]
            | seg # segs \<Rightarrow> (c # seg) # segs))"

text \<open>\<^verbatim>\<open>s.lastIndexOf(sep)\<close> for a one-character separator: -1 when absent.\<close>

fun lastIndexOf :: "string \<Rightarrow> char \<Rightarrow> int" where
  "lastIndexOf [] sep = - 1"
| "lastIndexOf (c # cs) sep =
     (let r = lastIndexOf cs sep
      in if 0 \<le> r then r + 1 else if c = sep then 0 else - 1)"

text \<open>\<^verbatim>\<open>s.slice(0, e)\<close>: a negative end counts from the end of the string.\<close>

definition slice_to :: "string \<Rightarrow> int \<Rightarrow> string" where
  "slice_to s e =
     (if e < 0 then take (nat (int (length s) + e)) s else take (nat e) s)"

text \<open>\<^verbatim>\<open>s.slice(n)\<close> for a length \<open>n\<close>\<close>

definition slice_from :: "string \<Rightarrow> nat \<Rightarrow> string" where
  "slice_from s n = drop n s"

text \<open>\<^verbatim>\<open>s.replace(/^\//, '')\<close>: one leading slash is removed.\<close>

fun strip_leading_slash :: "string \<Rightarrow> string" where
  "strip_leading_slash [] = []"
| "strip_leading_slash (c # cs) = (if c = CHR ''/'' then cs else c # cs)"

text \<open>
  \<^verbatim>\<open>p.split('/').pop()!\<close> and
  \<^verbatim>\<open>p.includes('/') ? p.slice(0, p.lastIndexOf('/')) : ''\<close>,
  the two expressions at the head of the move loop.
\<close>

definition fileName_of :: "path \<Rightarrow> string" where
  "fileName_of p = last (split p CHR ''/'')"

definition sourceDir_of :: "path \<Rightarrow> path" where
  "sourceDir_of p =
     (if includes_str p ''/'' then slice_to p (lastIndexOf p CHR ''/'') else [])"

section \<open>The remote host as the handlers see it\<close>

text \<open>
  Every call goes to \<^verbatim>\<open>https://api.github.com/repos/${owner}/${repo}/...\<close> with the
  same headers. An endpoint is the rest of the URL with the method and the JSON body:
  \<^item> \<open>GetContents path ref\<close>: GET \<^verbatim>\<open>contents/${path}?ref=${ref}\<close>
  \<^item> \<open>PutContents path message content branch sha\<close>: PUT \<^verbatim>\<open>contents/${path}\<close>;
    a field that is \<^verbatim>\<open>undefined\<close> is \<open>None\<close> (JSON.stringify leaves it out)
  \<^item> \<open>DeleteContents path message sha branch\<close>: DELETE \<^verbatim>\<open>contents/${path}\<close>
  \<^item> \<open>GetRef branch\<close>: GET \<^verbatim>\<open>git/refs/heads/${branch}\<close>
  \<^item> \<open>GetCommit sha\<close>: GET \<^verbatim>\<open>git/commits/${sha}\<close>
  \<^item> \<open>GetTree sha\<close>: GET \<^verbatim>\<open>git/trees/${sha}?recursive=1\<close>
  \<^item> \<open>PostTree tree\<close>: POST \<^verbatim>\<open>git/trees\<close>
  \<^item> \<open>PostCommit message tree parents\<close>: POST \<^verbatim>\<open>git/commits\<close>
  \<^item> \<open>PatchRef branch sha\<close>: PATCH \<^verbatim>\<open>git/refs/heads/${branch}\<close>
\<close>

text \<open>An item of a directory listing of the contents API.\<close>

record content_item =
  ci_type :: string
  ci_path :: path
  ci_sha :: string

text \<open>An item of a recursive tree listing, and an entry of a tree to create.\<close>

record tree_item =
  ti_path :: path
  ti_mode :: string
  ti_type :: string
  ti_sha :: string
  ti_size :: "nat option"
  ti_url :: string

record tree_entry =
  te_path :: path
  te_mode :: string
  te_type :: string
  te_sha :: string

datatype endpoint =
    GetContents path string
  | PutContents path string "string option" string "string option"
  | DeleteContents path string string "string option"
  | GetRef string
  | GetCommit string
  | GetTree string
  | PostTree "tree_entry list"
  | PostCommit string "string option" "string list"
  | PatchRef string "string option"

datatype call = Call string string endpoint

text \<open>
  The JSON bodies the handlers read: a file object of the contents API
  (\<open>content\<close>, \<open>sha\<close>), a directory listing of the contents API, a ref
  (\<open>object.sha\<close>), a commit (\<open>tree.sha\<close>), a recursive tree (\<open>tree\<close>), an
  object with a \<open>sha\<close>, and anything else.
\<close>

datatype body =
    FileBody string string
  | DirBody "content_item list"
  | RefBody string
  | CommitBody string
  | TreeBody "tree_item list"
  | ShaBody string
  | OtherBody

text \<open>\<open>fetch\<close> rejects (a network failure, with the error's message) or resolves
  to a response with a status and a body.\<close>

datatype response = Rejected string | Response nat body

text \<open>\<^verbatim>\<open>res.ok\<close>: the status is in the range 200 to 299.\<close>

definition ok :: "nat \<Rightarrow> bool" where
  "ok st = (200 \<le> st \<and> st \<le> 299)"

fun resp_ok :: "response \<Rightarrow> bool" where
  "resp_ok (Rejected m) = False"
| "resp_ok (Response st b) = ok st"

text \<open>\<^verbatim>\<open>data.content\<close> and \<^verbatim>\<open>data.sha\<close> of a parsed body: \<^verbatim>\<open>undefined\<close>
  on a body that has no such field (a directory listing is an array).\<close>

fun content_of :: "body \<Rightarrow> string option" where
  "content_of (FileBody c i) = Some c"
| "content_of b = None"

fun sha_of :: "body \<Rightarrow> string option" where
  "sha_of (FileBody c i) = Some i"
| "sha_of (ShaBody i) = Some i"
| "sha_of b = None"

text \<open>
  The host is a parameter: a function from its own state and a call to a response and
  its next state. The handler's state is the host's state and the log of the calls
  issued so far with their responses.
\<close>

type_synonym 'w upstream = "'w \<Rightarrow> call \<Rightarrow> response \<times> 'w"

record 'w st =
  world :: 'w
  log :: "(call \<times> response) list"

definition fetch :: "'w upstream \<Rightarrow> call \<Rightarrow> 'w st \<Rightarrow> response \<times> 'w st" where
  "fetch gh c s =
     (case gh (world s) c of
        (r, w') \<Rightarrow> (r, \<lparr>world = w', log = log s @ [(c, r)]\<rparr>))"

datatype exn = Error string

section \<open>error-sanitizer.ts\<close>

record sanitized_error =
  se_message :: string
  se_status :: nat

definition sanitizeGitHubError :: "nat \<Rightarrow> sanitized_error" where
  "sanitizeGitHubError status =
     (if status = 401 then
        \<lparr>se_message = ''Authentication failed. Please reconnect your GitHub account.'',
         se_status = 401\<rparr>
      else if status = 403 then
        \<lparr>se_message = ''Insufficient permissions. Please check your GitHub access settings.'',
         se_status = 403\<rparr>
      else if status = 404 then
        \<lparr>se_message = ''Resource not found. The repository or file may have been deleted.'',
         se_status = 404\<rparr>
      else if status = 409 then
        \<lparr>se_message = ''Conflict detected. The resource may have been modified. Please refresh and try again.'',
         se_status = 409\<rparr>
      else if status = 422 then
        \<lparr>se_message = ''Invalid data provided. Please check your input and try again.'',
         se_status = 422\<rparr>
      else if status = 429 then
        \<lparr>se_message = ''Rate limit exceeded. Please wait a moment and try again.'',
         se_status = 429\<rparr>
      else if status = 500 \<or> status = 502 \<or> status = 503 then
        \<lparr>se_message = ''GitHub service temporarily unavailable. Please try again shortly.'',
         se_status = 503\<rparr>
      else
        \<lparr>se_message = ''Operation failed. Please try again.'', se_status = 500\<rparr>)"

section \<open>move-files: moveSingleFile\<close>

record move_result =
  mr_status :: string
  mr_reason :: "string option"

definition moveSingleFile ::
  "'w upstream \<Rightarrow> string \<Rightarrow> string \<Rightarrow> string \<Rightarrow> path \<Rightarrow> string \<Rightarrow> path \<Rightarrow> 'w st
     \<Rightarrow> (exn + move_result) \<times> 'w st" where
  "moveSingleFile gh owner repo branch srcPath srcSha destPath s =
     (if srcPath = destPath then
        (Inr \<lparr>mr_status = ''skipped'', mr_reason = Some ''same path''\<rparr>, s)
      else
        (case fetch gh (Call owner repo (GetContents srcPath branch)) s of
           (Rejected m, s1) \<Rightarrow> (Inl (Error m), s1)
         | (Response getSrc srcData, s1) \<Rightarrow>
             if \<not> ok getSrc then
               (Inl (Error (se_message (sanitizeGitHubError getSrc))), s1)
             else
               (case fetch gh (Call owner repo (GetContents destPath branch)) s1 of
                  (Rejected m, s2) \<Rightarrow> (Inl (Error m), s2)
                | (Response checkDest destData, s2) \<Rightarrow>
                    (case fetch gh
                            (Call owner repo
                               (PutContents destPath
                                  (''Move '' @ srcPath @ '' to '' @ destPath)
                                  (content_of srcData)
                                  branch
                                  (if ok checkDest then sha_of destData else None)))
                            s2 of
                       (Rejected m, s3) \<Rightarrow> (Inl (Error m), s3)
                     | (Response createRes createData, s3) \<Rightarrow>
                         if \<not> ok createRes then
                           (Inl (Error (se_message (sanitizeGitHubError createRes))), s3)
                         else
                           (case fetch gh
                                   (Call owner repo
                                      (DeleteContents srcPath
                                         (''Delete old file '' @ srcPath)
                                         srcSha
                                         (Some branch)))
                                   s3 of
                              (Rejected m, s4) \<Rightarrow> (Inl (Error m), s4)
                            | (Response deleteRes deleteData, s4) \<Rightarrow>
                                if \<not> ok deleteRes then
                                  (Inl (Error (se_message (sanitizeGitHubError deleteRes))), s4)
                                else
                                  (Inr \<lparr>mr_status = ''moved'', mr_reason = None\<rparr>, s4))))))"

section \<open>move-files: listFilesRecursively\<close>

text \<open>
  The helper recurses into every directory the host lists, so it returns only if the
  host's answers stop listing directories. \<open>fuel\<close> bounds the depth of the recursion;
  \<open>None\<close> is the run that has not returned within it. A response that is not ok gives
  the empty list. A body that is not an array makes \<^verbatim>\<open>for (const item of items)\<close>
  throw a TypeError.
\<close>

record listed_file =
  lf_path :: path
  lf_sha :: string

fun listFilesRecursively ::
  "nat \<Rightarrow> 'w upstream \<Rightarrow> string \<Rightarrow> string \<Rightarrow> string \<Rightarrow> path \<Rightarrow> 'w st
     \<Rightarrow> ((exn + listed_file list) \<times> 'w st) option"
and list_items ::
  "nat \<Rightarrow> 'w upstream \<Rightarrow> string \<Rightarrow> string \<Rightarrow> string \<Rightarrow> content_item list
     \<Rightarrow> listed_file list \<Rightarrow> 'w st \<Rightarrow> ((exn + listed_file list) \<times> 'w st) option"
where
  "listFilesRecursively 0 gh owner repo branch dirPath s = None"
| "listFilesRecursively (Suc fuel) gh owner repo branch dirPath s =
     (case fetch gh (Call owner repo (GetContents dirPath branch)) s of
        (Rejected m, s1) \<Rightarrow> Some (Inl (Error m), s1)
      | (Response res items, s1) \<Rightarrow>
          if \<not> ok res then Some (Inr [], s1)
          else (case items of
                  DirBody its \<Rightarrow> list_items fuel gh owner repo branch its [] s1
                | _ \<Rightarrow> Some (Inl (Error ''items is not iterable''), s1)))"
| "list_items fuel gh owner repo branch [] results s = Some (Inr results, s)"
| "list_items fuel gh owner repo branch (item # items) results s =
     (if ci_type item = ''file'' then
        list_items fuel gh owner repo branch items
          (results @ [\<lparr>lf_path = ci_path item, lf_sha = ci_sha item\<rparr>]) s
      else if ci_type item = ''dir'' then
        (case listFilesRecursively fuel gh owner repo branch (ci_path item) s of
           None \<Rightarrow> None
         | Some (Inl e, s1) \<Rightarrow> Some (Inl e, s1)
         | Some (Inr sub, s1) \<Rightarrow>
             list_items fuel gh owner repo branch items (results @ sub) s1)
      else list_items fuel gh owner repo branch items results s)"

section \<open>move-files: the request loop\<close>

datatype item_type = File | Dir

record file_entry =
  fe_path :: path
  fe_sha :: string
  fe_type :: item_type

record move_detail =
  md_src :: path
  md_dest :: path
  md_status :: string

text \<open>\<open>movedCount\<close>, \<open>skippedCount\<close> and \<open>details\<close> of the handler.\<close>

record tally =
  movedCount :: nat
  skippedCount :: nat
  details :: "move_detail list"

text \<open>
  The lines after each call of \<open>moveSingleFile\<close>: count the result as moved or
  skipped and push its detail.
\<close>

definition record_result :: "tally \<Rightarrow> path \<Rightarrow> path \<Rightarrow> move_result \<Rightarrow> tally" where
  "record_result t src dest result =
     \<lparr>movedCount = (if mr_status result = ''moved'' then movedCount t + 1 else movedCount t),
      skippedCount = (if mr_status result = ''moved'' then skippedCount t else skippedCount t + 1),
      details = details t @ [\<lparr>md_src = src, md_dest = dest, md_status = mr_status result\<rparr>]\<rparr>"

datatype reply =
    Preflight
  | InvalidInput
  | ErrorReply string
  | MoveReply nat nat "move_detail list"
  | SuccessReply

datatype http_response = HttpResponse nat reply

text \<open>How one pass of the loop body ends: an exception, a \<open>return\<close> of the handler, or
  on to the next item.\<close>

datatype step = Threw exn | Returned http_response | Continue tally

text \<open>The inner loop over the files listed under a directory.\<close>

fun move_dir_files ::
  "'w upstream \<Rightarrow> string \<Rightarrow> string \<Rightarrow> string \<Rightarrow> path \<Rightarrow> path \<Rightarrow> listed_file list
     \<Rightarrow> tally \<Rightarrow> 'w st \<Rightarrow> (exn + tally) \<times> 'w st" where
  "move_dir_files gh owner repo branch dirPath targetDir [] t s = (Inr t, s)"
| "move_dir_files gh owner repo branch dirPath targetDir (df # dfs) t s =
     (let relative = strip_leading_slash (slice_from (lf_path df) (length dirPath));
          newPath = targetDir @ ''/'' @ relative
      in case moveSingleFile gh owner repo branch (lf_path df) (lf_sha df) newPath s of
           (Inl e, s1) \<Rightarrow> (Inl e, s1)
         | (Inr result, s1) \<Rightarrow>
             move_dir_files gh owner repo branch dirPath targetDir dfs
               (record_result t (lf_path df) newPath result) s1)"

text \<open>The body of \<^verbatim>\<open>for (const file of files)\<close>.\<close>

definition move_item ::
  "nat \<Rightarrow> 'w upstream \<Rightarrow> string \<Rightarrow> string \<Rightarrow> string \<Rightarrow> path \<Rightarrow> file_entry
     \<Rightarrow> tally \<Rightarrow> 'w st \<Rightarrow> (step \<times> 'w st) option" where
  "move_item fuel gh owner repo branch destination file t s =
     (let fileName = fileName_of (fe_path file);
          sourceDir = sourceDir_of (fe_path file)
      in if fe_type file = File \<and> destination = sourceDir then
           Some (Continue
                   \<lparr>movedCount = movedCount t, skippedCount = skippedCount t + 1,
                    details = details t @
                      [\<lparr>md_src = fe_path file,
                        md_dest = (if destination = [] then ''root'' else destination),
                        md_status = ''skipped (same folder)''\<rparr>]\<rparr>, s)
         else if fe_type file = Dir \<and> destination = sourceDir_of (fe_path file) then
           Some (Continue
                   \<lparr>movedCount = movedCount t, skippedCount = skippedCount t + 1,
                    details = details t @
                      [\<lparr>md_src = fe_path file,
                        md_dest = (if destination = [] then ''root'' else destination),
                        md_status = ''skipped (same parent)''\<rparr>]\<rparr>, s)
         else if fe_type file = Dir \<and>
                 (destination = fe_path file \<or>
                  (destination \<noteq> [] \<and> startsWith destination (fe_path file @ ''/''))) then
           Some (Returned
                   (HttpResponse 400
                      (ErrorReply
                         (''Cannot move folder '' @ [CHR 0x22] @ fe_path file @ [CHR 0x22] @
                          '' into itself or its descendant '' @
                          [CHR 0x22] @ destination @ [CHR 0x22]))), s)
         else if fe_type file = Dir then
           (let dirBaseName = fileName_of (fe_path file);
                targetDir = (if destination \<noteq> [] then destination @ ''/'' @ dirBaseName
                             else dirBaseName)
            in case listFilesRecursively fuel gh owner repo branch (fe_path file) s of
                 None \<Rightarrow> None
               | Some (Inl e, s1) \<Rightarrow> Some (Threw e, s1)
               | Some (Inr dirFiles, s1) \<Rightarrow>
                   (case move_dir_files gh owner repo branch (fe_path file) targetDir
                           dirFiles t s1 of
                      (Inl e, s2) \<Rightarrow> Some (Threw e, s2)
                    | (Inr t', s2) \<Rightarrow> Some (Continue t', s2)))
         else
           (let newPath = (if destination \<noteq> [] then destination @ ''/'' @ fileName
                           else fileName)
            in case moveSingleFile gh owner repo branch (fe_path file) (fe_sha file) newPath s of
                 (Inl e, s1) \<Rightarrow> Some (Threw e, s1)
               | (Inr result, s1) \<Rightarrow>
                   Some (Continue (record_result t (fe_path file) newPath result), s1)))"

fun move_loop ::
  "nat \<Rightarrow> 'w upstream \<Rightarrow> string \<Rightarrow> string \<Rightarrow> string \<Rightarrow> path \<Rightarrow> file_entry list
     \<Rightarrow> tally \<Rightarrow> 'w st \<Rightarrow> (step \<times> 'w st) option" where
  "move_loop fuel gh owner repo branch destination [] t s = Some (Continue t, s)"
| "move_loop fuel gh owner repo branch destination (file # files) t s =
     (case move_item fuel gh owner repo branch destination file t s of
        None \<Rightarrow> None
      | Some (Continue t', s1) \<Rightarrow> move_loop fuel gh owner repo branch destination files t' s1
      | Some (Threw e, s1) \<Rightarrow> Some (Threw e, s1)
      | Some (Returned r, s1) \<Rightarrow> Some (Returned r, s1))"

section \<open>validation.ts and the move-files handler\<close>

definition alnum :: "char \<Rightarrow> bool" where
  "alnum c =
     (let n = (of_char c :: nat)
      in (48 \<le> n \<and> n \<le> 57) \<or> (65 \<le> n \<and> n \<le> 90) \<or> (97 \<le> n \<and> n \<le> 122))"

definition ownerField :: "string \<Rightarrow> bool" where
  "ownerField v =
     (1 \<le> length v \<and> length v \<le> 39 \<and> list_all (\<lambda>c. alnum c \<or> c = CHR ''-'') v)"

definition repoField :: "string \<Rightarrow> bool" where
  "repoField v =
     (1 \<le> length v \<and> length v \<le> 100 \<and>
      list_all (\<lambda>c. alnum c \<or> c = CHR ''.'' \<or> c = CHR ''_'' \<or> c = CHR ''-'') v)"

definition MAX_PATH_LENGTH :: nat where
  "MAX_PATH_LENGTH = 4096"

definition pathField :: "string \<Rightarrow> bool" where
  "pathField p =
     (length p \<le> MAX_PATH_LENGTH \<and> \<not> includes_str p ''..'' \<and> \<not> startsWith p ''/'')"

definition branchField :: "string \<Rightarrow> bool" where
  "branchField v =
     (1 \<le> length v \<and> length v \<le> 255 \<and>
      list_all (\<lambda>c. alnum c \<or> c = CHR ''.'' \<or> c = CHR ''_'' \<or> c = CHR ''/'' \<or> c = CHR ''-'') v)"

definition MAX_BATCH_SIZE :: nat where
  "MAX_BATCH_SIZE = 100"

record move_request =
  mq_owner :: string
  mq_repo :: string
  mq_files :: "file_entry list"
  mq_destination :: path
  mq_branch :: "string option"
  mq_provider_token :: string

definition moveFilesSchema :: "move_request \<Rightarrow> bool" where
  "moveFilesSchema req =
     (ownerField (mq_owner req) \<and> repoField (mq_repo req) \<and>
      list_all (\<lambda>f. pathField (fe_path f) \<and> 1 \<le> length (fe_sha f) \<and> length (fe_sha f) \<le> 100)
        (mq_files req) \<and>
      1 \<le> length (mq_files req) \<and> length (mq_files req) \<le> MAX_BATCH_SIZE \<and>
      pathField (mq_destination req) \<and>
      (case mq_branch req of None \<Rightarrow> True | Some b \<Rightarrow> branchField b) \<and>
      1 \<le> length (mq_provider_token req))"

text \<open>
  What the session provider answers: no user, or a user with the \<open>github_username\<close> of
  the profile row when there is one.
\<close>

datatype session = NoUser | User "string option"

text \<open>
  The handler. The request body is taken as parsed into the types of the schema; the
  schema's remaining checks are \<open>moveFilesSchema\<close>. The details of an invalid-input
  reply are left out.
\<close>

definition move_files ::
  "nat \<Rightarrow> 'w upstream \<Rightarrow> string \<Rightarrow> session \<Rightarrow> move_request \<Rightarrow> 'w st
     \<Rightarrow> (http_response \<times> 'w st) option" where
  "move_files fuel gh method session req s =
     (if method = ''OPTIONS'' then Some (HttpResponse 200 Preflight, s)
      else if \<not> moveFilesSchema req then Some (HttpResponse 400 InvalidInput, s)
      else (case session of
              NoUser \<Rightarrow> Some (HttpResponse 401 (ErrorReply ''Unauthorized''), s)
            | User profile \<Rightarrow>
                (case profile of
                   None \<Rightarrow> Some (HttpResponse 401 (ErrorReply ''GitHub profile not found''), s)
                 | Some github_username \<Rightarrow>
                     if github_username = [] then
                       Some (HttpResponse 401 (ErrorReply ''GitHub profile not found''), s)
                     else if mq_owner req \<noteq> github_username then
                       Some (HttpResponse 403
                               (ErrorReply ''Unauthorized: can only access your own repositories''), s)
                     else
                       (case move_loop fuel gh (mq_owner req) (mq_repo req)
                               (case mq_branch req of None \<Rightarrow> ''main'' | Some b \<Rightarrow> b)
                               (mq_destination req) (mq_files req)
                               \<lparr>movedCount = 0, skippedCount = 0, details = []\<rparr> s of
                          None \<Rightarrow> None
                        | Some (Threw (Error m), s') \<Rightarrow>
                            Some (HttpResponse 500 (ErrorReply m), s')
                        | Some (Returned r, s') \<Rightarrow> Some (r, s')
                        | Some (Continue t, s') \<Rightarrow>
                            Some (HttpResponse 200
                                    (MoveReply (movedCount t) (skippedCount t) (details t)),
                                  s')))))"

section \<open>delete-file\<close>

record delete_request =
  dq_owner :: string
  dq_repo :: string
  dq_path :: path
  dq_sha :: string
  dq_branch :: "string option"
  dq_type :: "item_type option"
  dq_provider_token :: string

definition deleteFileSchema :: "delete_request \<Rightarrow> bool" where
  "deleteFileSchema req =
     (ownerField (dq_owner req) \<and> repoField (dq_repo req) \<and>
      1 \<le> length (dq_path req) \<and> length (dq_path req) \<le> 4096 \<and>
      \<not> includes_str (dq_path req) ''..'' \<and> \<not> startsWith (dq_path req) ''/'' \<and>
      1 \<le> length (dq_sha req) \<and> length (dq_sha req) \<le> 100 \<and>
      (case dq_branch req of None \<Rightarrow> True | Some b \<Rightarrow> 1 \<le> length b \<and> length b \<le> 255) \<and>
      1 \<le> length (dq_provider_token req))"

text \<open>
  \<^verbatim>\<open>refData.object.sha\<close>, \<^verbatim>\<open>commitData.tree.sha\<close> and \<^verbatim>\<open>treeData.tree\<close>: reading
  through a field that is not there throws a TypeError.
\<close>

fun ref_object_sha :: "body \<Rightarrow> exn + string" where
  "ref_object_sha (RefBody i) = Inr i"
| "ref_object_sha b = Inl (Error ''Cannot read properties of undefined'')"

fun commit_tree_sha :: "body \<Rightarrow> exn + string" where
  "commit_tree_sha (CommitBody i) = Inr i"
| "commit_tree_sha b = Inl (Error ''Cannot read properties of undefined'')"

fun tree_of :: "body \<Rightarrow> exn + tree_item list" where
  "tree_of (TreeBody items) = Inr items"
| "tree_of b = Inl (Error ''Cannot read properties of undefined'')"

text \<open>The filter that builds the tree to submit.\<close>

definition newTree :: "path \<Rightarrow> tree_item list \<Rightarrow> tree_entry list" where
  "newTree path tree =
     (let pathPrefix = (if endsWith path ''/'' then path else path @ ''/'')
      in map (\<lambda>item. \<lparr>te_path = ti_path item, te_mode = ti_mode item,
                        te_type = ti_type item, te_sha = ti_sha item\<rparr>)
           (filter (\<lambda>item. ti_type item = ''blob'')
              (filter (\<lambda>item.
                         let isInDeletedDir =
                               (startsWith (ti_path item) pathPrefix \<or> ti_path item = path)
                         in \<not> isInDeletedDir)
                 tree)))"

text \<open>The directory branch of the handler: \<open>Inl\<close> is an exception for the handler's
  \<open>catch\<close>, \<open>Inr\<close> the response returned.\<close>

definition delete_directory ::
  "'w upstream \<Rightarrow> string \<Rightarrow> string \<Rightarrow> string \<Rightarrow> path \<Rightarrow> 'w st
     \<Rightarrow> (exn + http_response) \<times> 'w st" where
  "delete_directory gh owner repo branchName path s =
     (case fetch gh (Call owner repo (GetRef branchName)) s of
        (Rejected m, s1) \<Rightarrow> (Inl (Error m), s1)
      | (Response refResponse refData, s1) \<Rightarrow>
     if \<not> ok refResponse then
       (Inr (HttpResponse (se_status (sanitizeGitHubError refResponse))
               (ErrorReply (se_message (sanitizeGitHubError refResponse)))), s1)
     else
     (case ref_object_sha refData of
        Inl e \<Rightarrow> (Inl e, s1)
      | Inr currentCommitSha \<Rightarrow>
     (case fetch gh (Call owner repo (GetCommit currentCommitSha)) s1 of
        (Rejected m, s2) \<Rightarrow> (Inl (Error m), s2)
      | (Response commitResponse commitData, s2) \<Rightarrow>
     if \<not> ok commitResponse then
       (Inr (HttpResponse (se_status (sanitizeGitHubError commitResponse))
               (ErrorReply (se_message (sanitizeGitHubError commitResponse)))), s2)
     else
     (case commit_tree_sha commitData of
        Inl e \<Rightarrow> (Inl e, s2)
      | Inr baseTreeSha \<Rightarrow>
     (case fetch gh (Call owner repo (GetTree baseTreeSha)) s2 of
        (Rejected m, s3) \<Rightarrow> (Inl (Error m), s3)
      | (Response treeResponse treeData, s3) \<Rightarrow>
     if \<not> ok treeResponse then
       (Inr (HttpResponse (se_status (sanitizeGitHubError treeResponse))
               (ErrorReply (se_message (sanitizeGitHubError treeResponse)))), s3)
     else
     (case tree_of treeData of
        Inl e \<Rightarrow> (Inl e, s3)
      | Inr tree \<Rightarrow>
     (case fetch gh (Call owner repo (PostTree (newTree path tree))) s3 of
        (Rejected m, s4) \<Rightarrow> (Inl (Error m), s4)
      | (Response newTreeResponse newTreeData, s4) \<Rightarrow>
     if \<not> ok newTreeResponse then
       (Inr (HttpResponse newTreeResponse (ErrorReply ''Failed to create new tree'')), s4)
     else
     (case fetch gh
             (Call owner repo
                (PostCommit (''Delete directory '' @ path) (sha_of newTreeData)
                   [currentCommitSha]))
             s4 of
        (Rejected m, s5) \<Rightarrow> (Inl (Error m), s5)
      | (Response newCommitResponse newCommitData, s5) \<Rightarrow>
     if \<not> ok newCommitResponse then
       (Inr (HttpResponse newCommitResponse (ErrorReply ''Failed to create commit'')), s5)
     else
     (case fetch gh (Call owner repo (PatchRef branchName (sha_of newCommitData))) s5 of
        (Rejected m, s6) \<Rightarrow> (Inl (Error m), s6)
      | (Response updateRefResponse updateRefData, s6) \<Rightarrow>
     if \<not> ok updateRefResponse then
       (Inr (HttpResponse updateRefResponse (ErrorReply ''Failed to update branch'')), s6)
     else
       (Inr (HttpResponse 200 SuccessReply), s6))))))))))"

text \<open>The file branch of the handler.\<close>

definition delete_single ::
  "'w upstream \<Rightarrow> string \<Rightarrow> string \<Rightarrow> string option \<Rightarrow> path \<Rightarrow> string \<Rightarrow> 'w st
     \<Rightarrow> (exn + http_response) \<times> 'w st" where
  "delete_single gh owner repo branch path sha s =
     (case fetch gh
             (Call owner repo
                (DeleteContents path (''Delete '' @ path) sha
                   (case branch of
                      None \<Rightarrow> None
                    | Some b \<Rightarrow> if b = [] then None else Some b)))
             s of
        (Rejected m, s1) \<Rightarrow> (Inl (Error m), s1)
      | (Response githubResponse data, s1) \<Rightarrow>
          if \<not> ok githubResponse then
            (Inr (HttpResponse (se_status (sanitizeGitHubError githubResponse))
                    (ErrorReply (se_message (sanitizeGitHubError githubResponse)))), s1)
          else (Inr (HttpResponse 200 SuccessReply), s1))"

definition delete_file ::
  "'w upstream \<Rightarrow> string \<Rightarrow> session \<Rightarrow> delete_request \<Rightarrow> 'w st \<Rightarrow> http_response \<times> 'w st" where
  "delete_file gh method session req s =
     (if method = ''OPTIONS'' then (HttpResponse 200 Preflight, s)
      else if \<not> deleteFileSchema req then (HttpResponse 400 InvalidInput, s)
      else (case session of
              NoUser \<Rightarrow> (HttpResponse 401 (ErrorReply ''Unauthorized''), s)
            | User profile \<Rightarrow>
                (case profile of
                   None \<Rightarrow> (HttpResponse 403 (ErrorReply ''GitHub profile not found''), s)
                 | Some github_username \<Rightarrow>
                     if github_username = [] then
                       (HttpResponse 403 (ErrorReply ''GitHub profile not found''), s)
                     else if dq_owner req \<noteq> github_username then
                       (HttpResponse 403
                          (ErrorReply ''Unauthorized: can only access your own repositories''), s)
                     else
                       (let branchName =
                              (case dq_branch req of
                                 None \<Rightarrow> ''main''
                               | Some b \<Rightarrow> if b = [] then ''main'' else b)
                        in case (if dq_type req = Some Dir then
                                   delete_directory gh (dq_owner req) (dq_repo req) branchName
                                     (dq_path req) s
                                 else
                                   delete_single gh (dq_owner req) (dq_repo req) (dq_branch req)
                                     (dq_path req) (dq_sha req) s) of
                             (Inl (Error m), s') \<Rightarrow> (HttpResponse 500 (ErrorReply m), s')
                           | (Inr r, s') \<Rightarrow> (r, s')))))"

section \<open>Reading the call log\<close>

text \<open>The call is a PUT on the contents of path \<open>p\<close>.\<close>

fun is_put :: "path \<Rightarrow> call \<Rightarrow> bool" where
  "is_put p (Call ow rp (PutContents q m c b i)) = (q = p)"
| "is_put p (Call ow rp e) = False"

text \<open>The call is a DELETE on the contents of some path, or of path \<open>p\<close>.\<close>

fun is_delete :: "call \<Rightarrow> bool" where
  "is_delete (Call ow rp (DeleteContents q m i b)) = True"
| "is_delete (Call ow rp e) = False"

fun is_delete_of :: "path \<Rightarrow> call \<Rightarrow> bool" where
  "is_delete_of p (Call ow rp (DeleteContents q m i b)) = (q = p)"
| "is_delete_of p (Call ow rp e) = False"

text \<open>The call is the PATCH that repoints a branch.\<close>

fun is_patch_ref :: "call \<Rightarrow> bool" where
  "is_patch_ref (Call ow rp (PatchRef b i)) = True"
| "is_patch_ref (Call ow rp e) = False"

text \<open>The call changes the repository or its object store: any method but GET.\<close>

fun is_mutating :: "call \<Rightarrow> bool" where
  "is_mutating (Call ow rp (GetContents p r)) = False"
| "is_mutating (Call ow rp (GetRef b)) = False"
| "is_mutating (Call ow rp (GetCommit c)) = False"
| "is_mutating (Call ow rp (GetTree t)) = False"
| "is_mutating (Call ow rp e) = True"

text \<open>
  A stretch of the log in which every DELETE comes after a PUT on \<open>dest\<close> whose
  response was ok; \<open>written\<close> says whether such a PUT has been seen already.
\<close>

fun deletes_follow_write :: "path \<Rightarrow> bool \<Rightarrow> (call \<times> response) list \<Rightarrow> bool" where
  "deletes_follow_write dest written [] = True"
| "deletes_follow_write dest written ((c, r) # es) =
     ((written \<or> \<not> is_delete c) \<and>
      deletes_follow_write dest (written \<or> (is_put dest c \<and> resp_ok r)) es)"

text \<open>In a stretch of the log, a PUT on \<open>dest\<close> was issued and did not return ok.\<close>

definition write_failed :: "path \<Rightarrow> (call \<times> response) list \<Rightarrow> bool" where
  "write_failed dest es = list_ex (\<lambda>(c, r). is_put dest c \<and> \<not> resp_ok r) es"

text \<open>In a stretch of the log, a PUT on \<open>dest\<close> returned ok.\<close>

definition write_confirmed :: "path \<Rightarrow> (call \<times> response) list \<Rightarrow> bool" where
  "write_confirmed dest es = list_ex (\<lambda>(c, r). is_put dest c \<and> resp_ok r) es"

text \<open>In a stretch of the log, a DELETE on \<open>src\<close> was issued and did not return ok.\<close>

definition delete_failed :: "path \<Rightarrow> (call \<times> response) list \<Rightarrow> bool" where
  "delete_failed src es = list_ex (\<lambda>(c, r). is_delete_of src c \<and> \<not> resp_ok r) es"

text \<open>In a stretch of the log, a call before the PATCH of the ref did not return ok.\<close>

definition preparation_failed :: "(call \<times> response) list \<Rightarrow> bool" where
  "preparation_failed es = list_ex (\<lambda>(c, r). \<not> is_patch_ref c \<and> \<not> resp_ok r) es"

text \<open>
  A stretch of the log is what the host answered, call after call, starting in state
  \<open>w\<close> and ending in state \<open>w'\<close>.
\<close>

fun replays :: "'w upstream \<Rightarrow> 'w \<Rightarrow> (call \<times> response) list \<Rightarrow> 'w \<Rightarrow> bool" where
  "replays gh w [] w' = (w' = w)"
| "replays gh w ((c, r) # es) w' = (fst (gh w c) = r \<and> replays gh (snd (gh w c)) es w')"

section \<open>What is assumed of the host\<close>

text \<open>
  The handlers' guarantees about the repository's content hold relative to a host that
  behaves like a content store. \<open>stored w p\<close> is what the host in state \<open>w\<close> holds at
  path \<open>p\<close>: the content and its content id, or nothing. A call addresses a path when it
  is a PUT or a DELETE on that path, or the PATCH of the branch ref (which repoints the
  whole tree).
\<close>

fun addresses :: "call \<Rightarrow> path \<Rightarrow> bool" where
  "addresses (Call ow rp (PutContents q m c b i)) p = (q = p)"
| "addresses (Call ow rp (DeleteContents q m i b)) p = (q = p)"
| "addresses (Call ow rp (PatchRef b i)) p = True"
| "addresses (Call ow rp e) p = False"

text \<open>A call leaves every path it does not address as it was.\<close>

definition changes_addressed_path_only ::
  "'w upstream \<Rightarrow> ('w \<Rightarrow> path \<Rightarrow> (string \<times> string) option) \<Rightarrow> bool" where
  "changes_addressed_path_only gh stored =
     (\<forall>w c p. \<not> addresses c p \<longrightarrow> stored (snd (gh w c)) p = stored w p)"

text \<open>An ok read of a stored file returns its content.\<close>

definition reads_stored_content ::
  "'w upstream \<Rightarrow> ('w \<Rightarrow> path \<Rightarrow> (string \<times> string) option) \<Rightarrow> bool" where
  "reads_stored_content gh stored =
     (\<forall>w ow rp p ref st b content i.
        fst (gh w (Call ow rp (GetContents p ref))) = Response st b \<and> ok st \<and>
        stored w p = Some (content, i) \<longrightarrow> content_of b = Some content)"

text \<open>After an ok PUT of a content on a path, the path holds that content.\<close>

definition writes_take_effect ::
  "'w upstream \<Rightarrow> ('w \<Rightarrow> path \<Rightarrow> (string \<times> string) option) \<Rightarrow> bool" where
  "writes_take_effect gh stored =
     (\<forall>w ow rp p m content b i st bd.
        fst (gh w (Call ow rp (PutContents p m (Some content) b i))) = Response st bd \<and> ok st
        \<longrightarrow> (\<exists>j. stored (snd (gh w (Call ow rp (PutContents p m (Some content) b i)))) p
                   = Some (content, j)))"

text \<open>A call answered with a status that is not ok has changed nothing.\<close>

definition refusals_change_nothing ::
  "'w upstream \<Rightarrow> ('w \<Rightarrow> path \<Rightarrow> (string \<times> string) option) \<Rightarrow> bool" where
  "refusals_change_nothing gh stored =
     (\<forall>w c st b. fst (gh w c) = Response st b \<and> \<not> ok st
        \<longrightarrow> stored (snd (gh w c)) = stored w)"

text \<open>
  \<open>tip_of w\<close> is the commit the branch points at in the host's state \<open>w\<close>. The branch
  is repointed by the PATCH of its ref, and by the contents API when it writes or deletes
  a file (each makes a commit); reading, and creating a tree or a commit object, leave the
  branch where it points.
\<close>

fun moves_branch :: "call \<Rightarrow> bool" where
  "moves_branch (Call ow rp (PatchRef b i)) = True"
| "moves_branch (Call ow rp (PutContents q m c b i)) = True"
| "moves_branch (Call ow rp (DeleteContents q m i b)) = True"
| "moves_branch (Call ow rp e) = False"

definition branch_moves_only_by_ref_or_contents ::
  "'w upstream \<Rightarrow> ('w \<Rightarrow> string) \<Rightarrow> bool" where
  "branch_moves_only_by_ref_or_contents gh tip_of =
     (\<forall>w c. \<not> moves_branch c \<longrightarrow> tip_of (snd (gh w c)) = tip_of w)"

section \<open>Two hosts to run the handlers against\<close>

text \<open>
  A small in-memory host: the files of one branch with their content and content id, the
  commit the branch points at, and a switch that makes the host refuse every change with
  403 (a token without write access). A write or a delete of a file makes a commit, named
  here after its message. The content id of a content is a function of the
  content. A write with the wrong content id is a conflict; a delete with the wrong
  content id is a conflict.
\<close>

record repo_state =
  files :: "(path \<times> string \<times> string) list"
  tip :: string
  readonly :: bool

definition blob_sha :: "string \<Rightarrow> string" where
  "blob_sha content = ''sha-'' @ content"

definition stored_file :: "repo_state \<Rightarrow> path \<Rightarrow> (string \<times> string) option" where
  "stored_file w p = map_of (files w) p"

fun github :: "repo_state upstream" where
  "github w (Call ow rp (GetContents p ref)) =
     (case map_of (files w) p of
        Some (content, i) \<Rightarrow> (Response 200 (FileBody content i), w)
      | None \<Rightarrow> (Response 404 OtherBody, w))"
| "github w (Call ow rp (PutContents p m content b i)) =
     (if readonly w then (Response 403 OtherBody, w)
      else (case content of
              None \<Rightarrow> (Response 422 OtherBody, w)
            | Some c \<Rightarrow>
                (case map_of (files w) p of
                   None \<Rightarrow>
                     (Response 201 (ShaBody (blob_sha c)),
                      w\<lparr>files := (p, c, blob_sha c) # files w, tip := ''commit: '' @ m\<rparr>)
                 | Some (c0, i0) \<Rightarrow>
                     if i = Some i0 then
                       (Response 200 (ShaBody (blob_sha c)),
                        w\<lparr>files := (p, c, blob_sha c) # files w, tip := ''commit: '' @ m\<rparr>)
                     else (Response 409 OtherBody, w))))"
| "github w (Call ow rp (DeleteContents p m i b)) =
     (if readonly w then (Response 403 OtherBody, w)
      else (case map_of (files w) p of
              None \<Rightarrow> (Response 404 OtherBody, w)
            | Some (c0, i0) \<Rightarrow>
                if i = i0 then
                  (Response 200 OtherBody,
                   w\<lparr>files := filter (\<lambda>f. fst f \<noteq> p) (files w), tip := ''commit: '' @ m\<rparr>)
                else (Response 409 OtherBody, w)))"
| "github w (Call ow rp (GetRef b)) = (Response 200 (RefBody (tip w)), w)"
| "github w (Call ow rp (GetCommit c)) =
     (if c = tip w then (Response 200 (CommitBody (''tree-'' @ c)), w)
      else (Response 404 OtherBody, w))"
| "github w (Call ow rp (GetTree t)) =
     (Response 200
        (TreeBody
           (map (\<lambda>f. \<lparr>ti_path = fst f, ti_mode = ''100644'', ti_type = ''blob'',
                       ti_sha = snd (snd f), ti_size = None, ti_url = []\<rparr>)
              (files w))),
      w)"
| "github w (Call ow rp (PostTree es)) =
     (if readonly w then (Response 403 OtherBody, w)
      else (Response 201 (ShaBody ''new-tree''), w))"
| "github w (Call ow rp (PostCommit m t ps)) =
     (if readonly w then (Response 403 OtherBody, w)
      else (Response 201 (ShaBody ''new-commit''), w))"
| "github w (Call ow rp (PatchRef b i)) =
     (if readonly w then (Response 403 OtherBody, w)
      else (case i of
              None \<Rightarrow> (Response 422 OtherBody, w)
            | Some c \<Rightarrow> (Response 200 (RefBody c), w\<lparr>tip := c\<rparr>)))"

text \<open>A host that plays back a fixed list of responses, whatever it is asked.\<close>

fun scripted :: "(response list) upstream" where
  "scripted [] c = (Rejected ''no response'', [])"
| "scripted (r # rs) c = (r, rs)"

section \<open>The specification's wording, to compare the code with\<close>




section \<open>Example repositories and requests\<close>

definition example_repo :: repo_state where
  "example_repo =
     \<lparr>files = [(''a.txt'', ''hello'', ''sha-hello''), (''x/b.txt'', ''bye'', ''sha-bye'')],
      tip = ''c0'', readonly = False\<rparr>"

text \<open>The same repository behind a token that may not write.\<close>

definition readonly_repo :: repo_state where
  "readonly_repo =
     \<lparr>files = [(''a.txt'', ''hello'', ''sha-hello''), (''x/b.txt'', ''bye'', ''sha-bye'')],
      tip = ''c0'', readonly = True\<rparr>"

text \<open>A file and then a directory, to be moved into a folder below that directory.\<close>

definition file_then_directory_into_itself :: move_request where
  "file_then_directory_into_itself =
     \<lparr>mq_owner = ''alice'', mq_repo = ''site'',
      mq_files = [\<lparr>fe_path = ''a.txt'', fe_sha = ''sha-hello'', fe_type = File\<rparr>,
                  \<lparr>fe_path = ''x'', fe_sha = ''sha-x'', fe_type = Dir\<rparr>],
      mq_destination = ''x/y'', mq_branch = Some ''main'', mq_provider_token = ''token''\<rparr>"

text \<open>Two files to be moved into \<open>docs\<close>.\<close>

definition two_files_to_docs :: move_request where
  "two_files_to_docs =
     \<lparr>mq_owner = ''alice'', mq_repo = ''site'',
      mq_files = [\<lparr>fe_path = ''a.txt'', fe_sha = ''sha-hello'', fe_type = File\<rparr>,
                  \<lparr>fe_path = ''x/b.txt'', fe_sha = ''sha-bye'', fe_type = File\<rparr>],
      mq_destination = ''docs'', mq_branch = Some ''main'', mq_provider_token = ''token''\<rparr>"


text \<open>The directory \<open>x\<close> to be deleted.\<close>

definition delete_x :: delete_request where
  "delete_x =
     \<lparr>dq_owner = ''alice'', dq_repo = ''site'', dq_path = ''x'', dq_sha = ''sha-x'',
      dq_branch = Some ''main'', dq_type = Some Dir, dq_provider_token = ''token''\<rparr>"

text \<open>The directory \<open>src/utils\<close> to be moved into \<open>lib\<close>, on the default branch.\<close>

definition move_utils_to_lib :: move_request where
  "move_utils_to_lib =
     \<lparr>mq_owner = ''alice'', mq_repo = ''site'',
      mq_files = [\<lparr>fe_path = ''src/utils'', fe_sha = ''sha-u'', fe_type = Dir\<rparr>],
      mq_destination = ''lib'', mq_branch = None, mq_provider_token = ''token''\<rparr>"




section \<open>Properties\<close>

subsection \<open>Calls, the log and the host's state\<close>

lemma fetch_log: "fetch gh c s = (r, s1) \<Longrightarrow> log s1 = log s @ [(c, r)]"
  by (auto simp: fetch_def split: prod.splits)

lemma fetch_world: "fetch gh c s = (r, s1) \<Longrightarrow> gh (world s) c = (r, world s1)"
  by (auto simp: fetch_def split: prod.splits)

lemma fetch_keeps:
  assumes "changes_addressed_path_only gh stored" "\<not> addresses c p" "fetch gh c s = (r, s1)"
  shows "stored (world s1) p = stored (world s) p"
proof -
  have "snd (gh (world s) c) = world s1" using fetch_world[OF assms(3)] by simp
  with assms(1,2) show ?thesis unfolding changes_addressed_path_only_def by metis
qed

lemma replays_keeps_tip:
  assumes "branch_moves_only_by_ref_or_contents gh tip_of"
  shows "replays gh w new w' \<Longrightarrow> list_all (\<lambda>e. \<not> moves_branch (fst e)) new
         \<Longrightarrow> tip_of w' = tip_of w"
proof (induction new arbitrary: w)
  case Nil
  then show ?case by simp
next
  case (Cons e es)
  obtain c r where e: "e = (c, r)" by (cases e)
  from Cons.prems have "replays gh (snd (gh w c)) es w'" and "\<not> moves_branch c"
    and "list_all (\<lambda>e. \<not> moves_branch (fst e)) es"
    by (simp_all add: e)
  with Cons.IH[of "snd (gh w c)"] assms show ?case
    unfolding branch_moves_only_by_ref_or_contents_def by metis
qed

lemma not_list_ex_patch:
  "\<not> list_ex (\<lambda>e. is_patch_ref (fst e)) new \<Longrightarrow> list_all (\<lambda>e. \<not> is_patch_ref (fst e)) new"
  by (induction new) auto

lemma sanitized_status_not_ok: "\<not> ok (se_status (sanitizeGitHubError st))"
  by (simp add: sanitizeGitHubError_def ok_def)

subsection \<open>The in-memory host meets what is assumed of a host\<close>

lemma map_of_filter_other:
  "q \<noteq> p \<Longrightarrow> map_of (filter (\<lambda>f. fst f \<noteq> q) xs) p = map_of xs p"
  by (induction xs) auto

lemma github_changes_addressed_path_only: "changes_addressed_path_only github stored_file"
  unfolding changes_addressed_path_only_def
proof (intro allI impI)
  fix w c p assume na: "\<not> addresses c p"
  obtain ow rp e where c: "c = Call ow rp e" by (cases c)
  show "stored_file (snd (github w c)) p = stored_file w p"
    using na unfolding c
    by (cases e) (auto simp: stored_file_def map_of_filter_other split: option.splits)
qed

lemma github_reads_stored_content: "reads_stored_content github stored_file"
  unfolding reads_stored_content_def
  by (auto simp: stored_file_def split: option.splits)

lemma github_writes_take_effect: "writes_take_effect github stored_file"
  unfolding writes_take_effect_def
  by (auto simp: stored_file_def ok_def split: option.splits if_splits)

lemma github_refusals_change_nothing: "refusals_change_nothing github stored_file"
  unfolding refusals_change_nothing_def
proof (intro allI impI)
  fix w c st b assume h: "fst (github w c) = Response st b \<and> \<not> ok st"
  obtain ow rp e where c: "c = Call ow rp e" by (cases c)
  show "stored_file (snd (github w c)) = stored_file w"
    using h unfolding c
    by (cases e) (auto simp: ok_def split: option.splits if_splits)
qed

lemma github_branch_moves_only_by_ref_or_contents:
  "branch_moves_only_by_ref_or_contents github tip"
  unfolding branch_moves_only_by_ref_or_contents_def
proof (intro allI impI)
  fix w c assume nm: "\<not> moves_branch c"
  obtain ow rp e where c: "c = Call ow rp e" by (cases c)
  show "tip (snd (github w c)) = tip w"
    using nm unfolding c by (cases e) (auto split: option.splits)
qed

subsection \<open>The example requests pass the schema\<close>

lemma move_utils_to_lib_valid: "moveFilesSchema move_utils_to_lib"
  by (simp add: move_utils_to_lib_def moveFilesSchema_def ownerField_def repoField_def pathField_def
      alnum_def startsWith_def MAX_BATCH_SIZE_def MAX_PATH_LENGTH_def)

lemma two_files_to_docs_valid: "moveFilesSchema two_files_to_docs"
  by (simp add: two_files_to_docs_def moveFilesSchema_def ownerField_def repoField_def
      pathField_def branchField_def alnum_def startsWith_def MAX_BATCH_SIZE_def
      MAX_PATH_LENGTH_def)

lemma file_then_directory_into_itself_valid: "moveFilesSchema file_then_directory_into_itself"
  by (simp add: file_then_directory_into_itself_def moveFilesSchema_def ownerField_def
      repoField_def pathField_def branchField_def alnum_def startsWith_def MAX_BATCH_SIZE_def
      MAX_PATH_LENGTH_def)



subsection \<open>The loops\<close>

lemma move_loop_append:
  "move_loop fuel gh owner repo branch destination (before @ after) t s =
     (case move_loop fuel gh owner repo branch destination before t s of
        None \<Rightarrow> None
      | Some (Continue t', s1) \<Rightarrow> move_loop fuel gh owner repo branch destination after t' s1
      | Some (Threw e, s1) \<Rightarrow> Some (Threw e, s1)
      | Some (Returned r, s1) \<Rightarrow> Some (Returned r, s1))"
proof (induction before arbitrary: t s)
  case Nil
  then show ?case by simp
next
  case (Cons f fs)
  show ?case
  proof (cases "move_item fuel gh owner repo branch destination f t s")
    case None
    then show ?thesis by simp
  next
    case (Some out)
    obtain st s1 where out: "out = (st, s1)" by (cases out)
    show ?thesis using Some out Cons.IH by (cases st) simp_all
  qed
qed







text \<open>A directory to be moved into itself or below itself, when the loop reaches it, ends the
  request with 400 and no call.\<close>

lemma move_loop_rejects_directory_reached_first:
  assumes "fe_type file = Dir"
    and "destination \<noteq> sourceDir_of (fe_path file)"
    and "destination = fe_path file \<or>
         (destination \<noteq> [] \<and> startsWith destination (fe_path file @ ''/''))"
  shows "move_loop fuel gh owner repo branch destination (file # rest) t s =
           Some (Returned
                   (HttpResponse 400
                      (ErrorReply
                         (''Cannot move folder '' @ [CHR 0x22] @ fe_path file @ [CHR 0x22] @
                          '' into itself or its descendant '' @
                          [CHR 0x22] @ destination @ [CHR 0x22]))), s)"
  using assms by (auto simp: move_item_def)




subsection \<open>Fuel\<close>

text \<open>A listing that has returned within some depth is the same at every greater depth.\<close>

lemma listing_fuel_mono:
  "listFilesRecursively fuel gh owner repo branch dirPath s = Some out
     \<Longrightarrow> listFilesRecursively (Suc fuel) gh owner repo branch dirPath s = Some out"
  "list_items fuel gh owner repo branch items results s = Some out
     \<Longrightarrow> list_items (Suc fuel) gh owner repo branch items results s = Some out"
proof (induction fuel gh owner repo branch dirPath s and fuel gh owner repo branch items results s
       arbitrary: out and out rule: listFilesRecursively_list_items.induct)
  case (1 gh owner repo branch dirPath s)
  then show ?case by simp
next
  case (2 fuel gh owner repo branch dirPath s)
  obtain r s1 where f: "fetch gh (Call owner repo (GetContents dirPath branch)) s = (r, s1)"
    by force
  show ?case
  proof (cases r)
    case (Rejected m)
    with "2.prems" f show ?thesis by simp
  next
    case (Response res b)
    show ?thesis
    proof (cases "ok res")
      case False
      with "2.prems" f Response show ?thesis by simp
    next
      case True
      show ?thesis
      proof (cases b)
        case (DirBody its)
        with "2.prems" f Response True
        have "list_items fuel gh owner repo branch its [] s1 = Some out" by simp
        with "2.IH"[OF f[symmetric] Response _ DirBody] True
        have "list_items (Suc fuel) gh owner repo branch its [] s1 = Some out" by simp
        with f Response True DirBody show ?thesis by simp
      qed (use "2.prems" f Response True in simp_all)
    qed
  qed
next
  case (3 fuel gh owner repo branch results s)
  then show ?case by simp
next
  case (4 fuel gh owner repo branch item items results s)
  show ?case
  proof (cases "ci_type item = ''file''")
    case True
    with "4.prems" "4.IH"(1) show ?thesis by simp
  next
    case nf: False
    show ?thesis
    proof (cases "ci_type item = ''dir''")
      case False
      with nf "4.prems" "4.IH"(4) show ?thesis by simp
    next
      case True
      from "4.prems" nf True obtain sub s1 where
        l: "listFilesRecursively fuel gh owner repo branch (ci_path item) s = Some (sub, s1)"
        by (auto split: option.splits)
      from "4.IH"(2) nf True l
      have l': "listFilesRecursively (Suc fuel) gh owner repo branch (ci_path item) s = Some (sub, s1)"
        by blast
      show ?thesis
      proof (cases sub)
        case (Inl e)
        with "4.prems" nf True l l' show ?thesis
          by (auto simp del: listFilesRecursively.simps)
      next
        case (Inr found)
        with "4.prems" nf True l
        have "list_items fuel gh owner repo branch items (results @ found) s1 = Some out"
          by simp
        with "4.IH"(3) nf True l Inr
        have "list_items (Suc fuel) gh owner repo branch items (results @ found) s1 = Some out"
          by blast
        with nf True l' Inr show ?thesis by (auto simp del: listFilesRecursively.simps)
      qed
    qed
  qed
qed

subsection \<open>The runs of moveSingleFile\<close>

lemma moveSingleFile_cases:
  assumes run: "moveSingleFile gh owner repo branch srcPath srcSha destPath s = (res, s')"
  obtains
    (same_path) "srcPath = destPath" "s' = s"
      "res = Inr \<lparr>mr_status = ''skipped'', mr_reason = Some ''same path''\<rparr>"
  | (read_rejected) m where "srcPath \<noteq> destPath"
      "fetch gh (Call owner repo (GetContents srcPath branch)) s = (Rejected m, s')"
      "res = Inl (Error m)"
  | (read_refused) st1 b1 where "srcPath \<noteq> destPath"
      "fetch gh (Call owner repo (GetContents srcPath branch)) s = (Response st1 b1, s')"
      "\<not> ok st1" "res = Inl (Error (se_message (sanitizeGitHubError st1)))"
  | (probe_rejected) st1 b1 s1 m where "srcPath \<noteq> destPath"
      "fetch gh (Call owner repo (GetContents srcPath branch)) s = (Response st1 b1, s1)"
      "ok st1"
      "fetch gh (Call owner repo (GetContents destPath branch)) s1 = (Rejected m, s')"
      "res = Inl (Error m)"
  | (write_stopped) st1 b1 s1 st2 b2 s2 r3 where "srcPath \<noteq> destPath"
      "fetch gh (Call owner repo (GetContents srcPath branch)) s = (Response st1 b1, s1)"
      "ok st1"
      "fetch gh (Call owner repo (GetContents destPath branch)) s1 = (Response st2 b2, s2)"
      "fetch gh (Call owner repo (PutContents destPath (''Move '' @ srcPath @ '' to '' @ destPath)
          (content_of b1) branch (if ok st2 then sha_of b2 else None))) s2 = (r3, s')"
      "\<not> resp_ok r3"
      "res = Inl (Error (case r3 of Rejected m \<Rightarrow> m
                         | Response st3 b3 \<Rightarrow> se_message (sanitizeGitHubError st3)))"
  | (written) st1 b1 s1 st2 b2 s2 st3 b3 s3 r4 where "srcPath \<noteq> destPath"
      "fetch gh (Call owner repo (GetContents srcPath branch)) s = (Response st1 b1, s1)"
      "ok st1"
      "fetch gh (Call owner repo (GetContents destPath branch)) s1 = (Response st2 b2, s2)"
      "fetch gh (Call owner repo (PutContents destPath (''Move '' @ srcPath @ '' to '' @ destPath)
          (content_of b1) branch (if ok st2 then sha_of b2 else None))) s2 = (Response st3 b3, s3)"
      "ok st3"
      "fetch gh (Call owner repo (DeleteContents srcPath (''Delete old file '' @ srcPath)
          srcSha (Some branch))) s3 = (r4, s')"
      "res = (case r4 of Rejected m \<Rightarrow> Inl (Error m)
              | Response st4 b4 \<Rightarrow>
                  if ok st4 then Inr \<lparr>mr_status = ''moved'', mr_reason = None\<rparr>
                  else Inl (Error (se_message (sanitizeGitHubError st4))))"
  using run
  by (simp add: moveSingleFile_def split: if_splits prod.splits response.splits)

subsection \<open>The runs of the directory delete\<close>

lemma delete_directory_trace:
  assumes run: "delete_directory gh owner repo branchName path s = (res, s')"
  shows "\<exists>new. log s' = log s @ new \<and> replays gh (world s) new (world s') \<and>
           (list_ex (\<lambda>e. is_patch_ref (fst e)) new \<longrightarrow> \<not> preparation_failed new) \<and>
           (\<not> list_ex (\<lambda>e. is_patch_ref (fst e)) new \<longrightarrow>
              list_all (\<lambda>e. \<not> moves_branch (fst e)) new \<and>
              ((\<exists>e. res = Inl e) \<or>
               (\<exists>st m. res = Inr (HttpResponse st (ErrorReply m)) \<and> \<not> ok st)))"
  using run
  by (auto simp: delete_directory_def fetch_def preparation_failed_def sanitized_status_not_ok
      split: prod.splits response.splits if_split_asm sum.splits exn.splits)

subsection \<open>The claims\<close>

text \<open>
  C7. When the source path and the destination path of \<open>moveSingleFile\<close> are the same
  string, the function returns the status \<open>skipped\<close> at once and the state is the
  one it was given: the host's state is untouched and no call (read, probe, write or
  delete) is added to the log.
\<close>

theorem moveSingleFile_same_path_skipped:
  "moveSingleFile gh owner repo branch p srcSha p s =
     (Inr \<lparr>mr_status = ''skipped'', mr_reason = Some ''same path''\<rparr>, s)"
  by (simp add: moveSingleFile_def)

text \<open>
  C1. In every run of \<open>moveSingleFile\<close>, the calls it adds to the log are such that a
  DELETE comes only after a PUT on the destination path that returned ok. In every run in
  which the PUT on the destination was issued and did not return ok, no DELETE is in the
  calls added, the function throws, and on a host where a call changes only the path it
  addresses, what is stored at the source path (content and content id) is as it was
  before the run.
\<close>

theorem moveSingleFile_delete_only_after_write:
  assumes run: "moveSingleFile gh owner repo branch srcPath srcSha destPath s = (res, s')"
  shows "\<exists>new. log s' = log s @ new \<and> deletes_follow_write destPath False new \<and>
           (write_failed destPath new \<longrightarrow>
              list_all (\<lambda>e. \<not> is_delete (fst e)) new \<and> (\<exists>m. res = Inl (Error m)) \<and>
              (changes_addressed_path_only gh stored \<longrightarrow>
                 stored (world s') srcPath = stored (world s) srcPath))"
  using run
proof (cases rule: moveSingleFile_cases)
  case same_path
  then have "log s' = log s @ []" by simp
  then show ?thesis by (rule_tac x="[]" in exI) (simp add: write_failed_def)
next
  case (read_rejected m)
  from fetch_log[OF read_rejected(2)] show ?thesis
    by (simp add: write_failed_def)
next
  case (read_refused st1 b1)
  from fetch_log[OF read_refused(2)] show ?thesis
    by (simp add: write_failed_def)
next
  case (probe_rejected st1 b1 s1 m)
  from fetch_log[OF probe_rejected(2)] fetch_log[OF probe_rejected(4)] show ?thesis
    by (simp add: write_failed_def)
next
  case (write_stopped st1 b1 s1 st2 b2 s2 r3)
  let ?put = "Call owner repo (PutContents destPath (''Move '' @ srcPath @ '' to '' @ destPath)
          (content_of b1) branch (if ok st2 then sha_of b2 else None))"
  let ?new = "[(Call owner repo (GetContents srcPath branch), Response st1 b1),
               (Call owner repo (GetContents destPath branch), Response st2 b2),
               (?put, r3)]"
  have lg: "log s' = log s @ ?new"
    using fetch_log[OF write_stopped(2)] fetch_log[OF write_stopped(4)]
      fetch_log[OF write_stopped(5)] by simp
  have keep: "stored (world s') srcPath = stored (world s) srcPath"
    if host: "changes_addressed_path_only gh stored"
  proof -
    have "stored (world s1) srcPath = stored (world s) srcPath"
      by (rule fetch_keeps[OF host _ write_stopped(2)]) simp
    moreover have "stored (world s2) srcPath = stored (world s1) srcPath"
      by (rule fetch_keeps[OF host _ write_stopped(4)]) simp
    moreover have "stored (world s') srcPath = stored (world s2) srcPath"
      by (rule fetch_keeps[OF host _ write_stopped(5)]) (use write_stopped(1) in auto)
    ultimately show ?thesis by simp
  qed
  have "deletes_follow_write destPath False ?new" by simp
  moreover have "list_all (\<lambda>e. \<not> is_delete (fst e)) ?new" by simp
  moreover have "\<exists>m. res = Inl (Error m)" using write_stopped(7) by simp
  ultimately show ?thesis using lg keep by blast
next
  case (written st1 b1 s1 st2 b2 s2 st3 b3 s3 r4)
  let ?put = "Call owner repo (PutContents destPath (''Move '' @ srcPath @ '' to '' @ destPath)
          (content_of b1) branch (if ok st2 then sha_of b2 else None))"
  let ?new = "[(Call owner repo (GetContents srcPath branch), Response st1 b1),
               (Call owner repo (GetContents destPath branch), Response st2 b2),
               (?put, Response st3 b3),
               (Call owner repo (DeleteContents srcPath (''Delete old file '' @ srcPath)
                  srcSha (Some branch)), r4)]"
  have lg: "log s' = log s @ ?new"
    using fetch_log[OF written(2)] fetch_log[OF written(4)]
      fetch_log[OF written(5)] fetch_log[OF written(7)] by simp
  have "deletes_follow_write destPath False ?new" using written(6) by simp
  moreover have "\<not> write_failed destPath ?new"
    using written(1,6) by (simp add: write_failed_def)
  ultimately show ?thesis using lg by blast
qed

text \<open>
  The run of C1 on the in-memory host behind a token that may not write: the PUT on
  \<open>docs/a.txt\<close> is refused, no DELETE is issued, and \<open>a.txt\<close> is stored as before.
\<close>

theorem moveSingleFile_delete_only_after_write_witness:
  "write_failed ''docs/a.txt''
     (log (snd (moveSingleFile github ''alice'' ''site'' ''main'' ''a.txt'' ''sha-hello''
                  ''docs/a.txt'' \<lparr>world = readonly_repo, log = []\<rparr>))) \<and>
   list_all (\<lambda>e. \<not> is_delete (fst e))
     (log (snd (moveSingleFile github ''alice'' ''site'' ''main'' ''a.txt'' ''sha-hello''
                  ''docs/a.txt'' \<lparr>world = readonly_repo, log = []\<rparr>))) \<and>
   stored_file
     (world (snd (moveSingleFile github ''alice'' ''site'' ''main'' ''a.txt'' ''sha-hello''
                    ''docs/a.txt'' \<lparr>world = readonly_repo, log = []\<rparr>)))
     ''a.txt'' = Some (''hello'', ''sha-hello'')"
proof -
  let ?s = "\<lparr>world = readonly_repo, log = []\<rparr>"
  let ?run = "moveSingleFile github ''alice'' ''site'' ''main'' ''a.txt'' ''sha-hello''
                ''docs/a.txt'' ?s"
  have run: "?run = (fst ?run, snd ?run)" by simp
  have wf: "write_failed ''docs/a.txt'' (log (snd ?run))"
    by (simp add: moveSingleFile_def fetch_def ok_def write_failed_def readonly_repo_def)
  from moveSingleFile_delete_only_after_write[OF run, where stored = stored_file]
  obtain new where new: "log (snd ?run) = log ?s @ new"
    and imp: "write_failed ''docs/a.txt'' new \<longrightarrow>
              list_all (\<lambda>e. \<not> is_delete (fst e)) new \<and> (\<exists>m. fst ?run = Inl (Error m)) \<and>
              (changes_addressed_path_only github stored_file \<longrightarrow>
                 stored_file (world (snd ?run)) ''a.txt'' = stored_file (world ?s) ''a.txt'')"
    by blast
  have eq: "new = log (snd ?run)" using new by simp
  from imp wf github_changes_addressed_path_only
  have "list_all (\<lambda>e. \<not> is_delete (fst e)) (log (snd ?run))"
    and "stored_file (world (snd ?run)) ''a.txt'' = stored_file (world ?s) ''a.txt''"
    unfolding eq by blast+
  then show ?thesis using wf by (simp add: stored_file_def readonly_repo_def)
qed

text \<open>
  C2. In every run of \<open>moveSingleFile\<close> in which the PUT on the destination returned ok
  and the DELETE on the source did not, the function throws an error whose message is the
  rejection's message or the sanitized message for the DELETE's status. On a host that
  changes only the path a call addresses, returns the stored content on an ok read and
  holds the written content after an ok PUT, the destination then holds the content the
  source had before the run; and if the DELETE was answered (with a status that is not
  ok) by a host whose refusals change nothing, the source still holds its content and
  content id: the file is duplicated, not lost.
\<close>

theorem moveSingleFile_failed_delete_duplicates:
  assumes run: "moveSingleFile gh owner repo branch srcPath srcSha destPath s = (res, s')"
    and new: "log s' = log s @ new"
    and wrote: "write_confirmed destPath new"
    and del: "delete_failed srcPath new"
  shows "res = Inl (Error (case snd (last new) of
                             Rejected m \<Rightarrow> m
                           | Response st b \<Rightarrow> se_message (sanitizeGitHubError st))) \<and>
         (changes_addressed_path_only gh stored \<and> reads_stored_content gh stored \<and>
          writes_take_effect gh stored \<and> stored (world s) srcPath = Some (content, i) \<longrightarrow>
            (\<exists>j. stored (world s') destPath = Some (content, j)) \<and>
            (refusals_change_nothing gh stored \<and> (\<exists>st b. snd (last new) = Response st b) \<longrightarrow>
               stored (world s') srcPath = Some (content, i)))"
  using run
proof (cases rule: moveSingleFile_cases)
  case same_path
  with new del show ?thesis by (simp add: delete_failed_def)
next
  case (read_rejected m)
  from fetch_log[OF read_rejected(2)] new del show ?thesis
    by (auto simp: delete_failed_def)
next
  case (read_refused st1 b1)
  from fetch_log[OF read_refused(2)] new del show ?thesis
    by (auto simp: delete_failed_def)
next
  case (probe_rejected st1 b1 s1 m)
  from fetch_log[OF probe_rejected(2)] fetch_log[OF probe_rejected(4)] new del show ?thesis
    by (auto simp: delete_failed_def)
next
  case (write_stopped st1 b1 s1 st2 b2 s2 r3)
  from fetch_log[OF write_stopped(2)] fetch_log[OF write_stopped(4)]
    fetch_log[OF write_stopped(5)] new del show ?thesis
    by (auto simp: delete_failed_def)
next
  case (written st1 b1 s1 st2 b2 s2 st3 b3 s3 r4)
  let ?get = "Call owner repo (GetContents srcPath branch)"
  let ?put = "Call owner repo (PutContents destPath (''Move '' @ srcPath @ '' to '' @ destPath)
          (content_of b1) branch (if ok st2 then sha_of b2 else None))"
  let ?del = "Call owner repo (DeleteContents srcPath (''Delete old file '' @ srcPath)
                  srcSha (Some branch))"
  have lg: "new = [(?get, Response st1 b1),
               (Call owner repo (GetContents destPath branch), Response st2 b2),
               (?put, Response st3 b3), (?del, r4)]"
    using fetch_log[OF written(2)] fetch_log[OF written(4)]
      fetch_log[OF written(5)] fetch_log[OF written(7)] new by simp
  have r4: "\<not> resp_ok r4" using del written(1) unfolding lg delete_failed_def by auto
  have last: "snd (last new) = r4" unfolding lg by simp
  have reported: "res = Inl (Error (case snd (last new) of
                             Rejected m \<Rightarrow> m
                           | Response st b \<Rightarrow> se_message (sanitizeGitHubError st)))"
    unfolding last using written(8) r4 by (cases r4) auto
  have state: "(\<exists>j. stored (world s') destPath = Some (content, j)) \<and>
            (refusals_change_nothing gh stored \<and> (\<exists>st b. snd (last new) = Response st b) \<longrightarrow>
               stored (world s') srcPath = Some (content, i))"
    if frame: "changes_addressed_path_only gh stored"
      and reads: "reads_stored_content gh stored"
      and writes: "writes_take_effect gh stored"
      and src: "stored (world s) srcPath = Some (content, i)"
  proof -
    have "fst (gh (world s) ?get) = Response st1 b1"
      using fetch_world[OF written(2)] by simp
    with reads written(3) src have c1: "content_of b1 = Some content"
      unfolding reads_stored_content_def by blast
    have src1: "stored (world s1) srcPath = Some (content, i)"
      using fetch_keeps[OF frame _ written(2), of srcPath] src by simp
    have src2: "stored (world s2) srcPath = Some (content, i)"
      using fetch_keeps[OF frame _ written(4), of srcPath] src1 by simp
    have src3: "stored (world s3) srcPath = Some (content, i)"
      using fetch_keeps[OF frame _ written(5), of srcPath] src2 written(1) by auto
    have w3: "gh (world s2) ?put = (Response st3 b3, world s3)"
      using fetch_world[OF written(5)] .
    from writes written(6) w3 c1 obtain j where j: "stored (world s3) destPath = Some (content, j)"
      unfolding writes_take_effect_def
      by (metis fst_conv snd_conv)
    have "stored (world s') destPath = stored (world s3) destPath"
      by (rule fetch_keeps[OF frame _ written(7)]) (use written(1) in auto)
    with j have dest: "\<exists>j. stored (world s') destPath = Some (content, j)" by simp
    have "stored (world s') srcPath = Some (content, i)"
      if quiet: "refusals_change_nothing gh stored" and resp: "\<exists>st b. snd (last new) = Response st b"
    proof -
      from resp last obtain st4 b4 where r4eq: "r4 = Response st4 b4" by auto
      with r4 have "\<not> ok st4" by simp
      moreover have "gh (world s3) ?del = (Response st4 b4, world s')"
        using fetch_world[OF written(7)] r4eq by simp
      ultimately have "stored (world s') = stored (world s3)"
        using quiet unfolding refusals_change_nothing_def by (metis fst_conv snd_conv)
      with src3 show ?thesis by simp
    qed
    with dest show ?thesis by blast
  qed
  from reported state show ?thesis by blast
qed

text \<open>
  The run of C2 on the in-memory host with a stale content id for the source: the PUT on
  \<open>docs/a.txt\<close> creates the file, the DELETE on \<open>a.txt\<close> is a conflict.
\<close>

theorem moveSingleFile_failed_delete_duplicates_witness:
  "write_confirmed ''docs/a.txt''
     (log (snd (moveSingleFile github ''alice'' ''site'' ''main'' ''a.txt'' ''stale''
                  ''docs/a.txt'' \<lparr>world = example_repo, log = []\<rparr>))) \<and>
   delete_failed ''a.txt''
     (log (snd (moveSingleFile github ''alice'' ''site'' ''main'' ''a.txt'' ''stale''
                  ''docs/a.txt'' \<lparr>world = example_repo, log = []\<rparr>))) \<and>
   fst (moveSingleFile github ''alice'' ''site'' ''main'' ''a.txt'' ''stale''
          ''docs/a.txt'' \<lparr>world = example_repo, log = []\<rparr>) =
     Inl (Error ''Conflict detected. The resource may have been modified. Please refresh and try again.'') \<and>
   stored_file
     (world (snd (moveSingleFile github ''alice'' ''site'' ''main'' ''a.txt'' ''stale''
                    ''docs/a.txt'' \<lparr>world = example_repo, log = []\<rparr>)))
     ''docs/a.txt'' = Some (''hello'', ''sha-hello'') \<and>
   stored_file
     (world (snd (moveSingleFile github ''alice'' ''site'' ''main'' ''a.txt'' ''stale''
                    ''docs/a.txt'' \<lparr>world = example_repo, log = []\<rparr>)))
     ''a.txt'' = Some (''hello'', ''sha-hello'')"
proof -
  let ?s = "\<lparr>world = example_repo, log = []\<rparr>"
  let ?run = "moveSingleFile github ''alice'' ''site'' ''main'' ''a.txt'' ''stale''
                ''docs/a.txt'' ?s"
  have run: "?run = (fst ?run, snd ?run)" by simp
  have new: "log (snd ?run) = log ?s @ log (snd ?run)" by simp
  have wrote: "write_confirmed ''docs/a.txt'' (log (snd ?run))"
    by (simp add: moveSingleFile_def fetch_def ok_def write_confirmed_def example_repo_def)
  have del: "delete_failed ''a.txt'' (log (snd ?run))"
    by (simp add: moveSingleFile_def fetch_def ok_def delete_failed_def example_repo_def)
  have answered: "snd (last (log (snd ?run))) = Response 409 OtherBody"
    by (simp add: moveSingleFile_def fetch_def ok_def example_repo_def)
  have src: "stored_file (world ?s) ''a.txt'' = Some (''hello'', ''sha-hello'')"
    by (simp add: stored_file_def example_repo_def)
  from moveSingleFile_failed_delete_duplicates[OF run new wrote del,
      where stored = stored_file and content = "''hello''" and i = "''sha-hello''"]
    github_changes_addressed_path_only github_reads_stored_content
    github_writes_take_effect github_refusals_change_nothing src answered
  have "fst ?run = Inl (Error (se_message (sanitizeGitHubError 409)))"
    and "\<exists>j. stored_file (world (snd ?run)) ''docs/a.txt'' = Some (''hello'', j)"
    and "stored_file (world (snd ?run)) ''a.txt'' = Some (''hello'', ''sha-hello'')"
    by auto
  moreover have "stored_file (world (snd ?run)) ''docs/a.txt'' = Some (''hello'', ''sha-hello'')"
    by (simp add: moveSingleFile_def fetch_def ok_def example_repo_def stored_file_def
        blob_sha_def)
  ultimately show ?thesis using wrote del by (simp add: sanitizeGitHubError_def)
qed

text \<open>
  C3, at a request the claim covers: the file \<open>a.txt\<close> and then the directory \<open>x\<close>,
  to be moved into \<open>x/y\<close>. The handler answers 400, that the folder cannot be moved
  into its descendant; by then it has moved \<open>a.txt\<close>: the log holds the PUT on
  \<open>x/y/a.txt\<close> and the DELETE on \<open>a.txt\<close>, and the host no longer stores \<open>a.txt\<close>.
  The check of a directory's destination sits in the loop body, so the items listed before
  the directory have been processed when it is reached.
\<close>

theorem move_files_rejects_after_moving_earlier_item:
  "move_files 0 github ''POST'' (User (Some ''alice'')) file_then_directory_into_itself
     \<lparr>world = example_repo, log = []\<rparr> =
   Some (HttpResponse 400
           (ErrorReply
              (''Cannot move folder '' @ [CHR 0x22] @ ''x'' @ [CHR 0x22] @
               '' into itself or its descendant '' @ [CHR 0x22] @ ''x/y'' @ [CHR 0x22])),
         \<lparr>world =
            \<lparr>files = [(''x/y/a.txt'', ''hello'', ''sha-hello''), (''x/b.txt'', ''bye'', ''sha-bye'')],
             tip = ''commit: Delete old file a.txt'', readonly = False\<rparr>,
          log = [(Call ''alice'' ''site'' (GetContents ''a.txt'' ''main''),
                  Response 200 (FileBody ''hello'' ''sha-hello'')),
                 (Call ''alice'' ''site'' (GetContents ''x/y/a.txt'' ''main''),
                  Response 404 OtherBody),
                 (Call ''alice'' ''site''
                    (PutContents ''x/y/a.txt'' ''Move a.txt to x/y/a.txt'' (Some ''hello'')
                       ''main'' None),
                  Response 201 (ShaBody ''sha-hello'')),
                 (Call ''alice'' ''site''
                    (DeleteContents ''a.txt'' ''Delete old file a.txt'' ''sha-hello''
                       (Some ''main'')),
                  Response 200 OtherBody)]\<rparr>) \<and>
   map_option (\<lambda>out. filter is_mutating (map fst (log (snd out))))
     (move_files 0 github ''POST'' (User (Some ''alice'')) file_then_directory_into_itself
        \<lparr>world = example_repo, log = []\<rparr>) =
   Some [Call ''alice'' ''site''
           (PutContents ''x/y/a.txt'' ''Move a.txt to x/y/a.txt'' (Some ''hello'') ''main'' None),
         Call ''alice'' ''site''
           (DeleteContents ''a.txt'' ''Delete old file a.txt'' ''sha-hello'' (Some ''main''))]"
proof -
  have run: "move_files 0 github ''POST'' (User (Some ''alice'')) file_then_directory_into_itself
     \<lparr>world = example_repo, log = []\<rparr> =
   Some (HttpResponse 400
           (ErrorReply
              (''Cannot move folder '' @ [CHR 0x22] @ ''x'' @ [CHR 0x22] @
               '' into itself or its descendant '' @ [CHR 0x22] @ ''x/y'' @ [CHR 0x22])),
         \<lparr>world =
            \<lparr>files = [(''x/y/a.txt'', ''hello'', ''sha-hello''), (''x/b.txt'', ''bye'', ''sha-bye'')],
             tip = ''commit: Delete old file a.txt'', readonly = False\<rparr>,
          log = [(Call ''alice'' ''site'' (GetContents ''a.txt'' ''main''),
                  Response 200 (FileBody ''hello'' ''sha-hello'')),
                 (Call ''alice'' ''site'' (GetContents ''x/y/a.txt'' ''main''),
                  Response 404 OtherBody),
                 (Call ''alice'' ''site''
                    (PutContents ''x/y/a.txt'' ''Move a.txt to x/y/a.txt'' (Some ''hello'')
                       ''main'' None),
                  Response 201 (ShaBody ''sha-hello'')),
                 (Call ''alice'' ''site''
                    (DeleteContents ''a.txt'' ''Delete old file a.txt'' ''sha-hello''
                       (Some ''main'')),
                  Response 200 OtherBody)]\<rparr>)"
    using file_then_directory_into_itself_valid
    apply (simp add: move_files_def)
    apply (simp add: file_then_directory_into_itself_def example_repo_def move_item_def
        moveSingleFile_def fetch_def ok_def sourceDir_of_def fileName_of_def startsWith_def
        slice_to_def record_result_def blob_sha_def Let_def)
    done
  show ?thesis unfolding run by simp
qed

text \<open>
  C4 as the specification words it fails: \<open>moveSingleFile\<close> throws on a failure and
  nothing in the loop catches the exception. Two files are sent to \<open>docs\<close> with a token
  that may not write: the PUT for the first is refused, the handler answers 500 with the
  error's message and no outcome list, and no call has been issued for the second file.
\<close>

theorem move_files_failure_aborts_batch_counterexample:
  "move_files 0 github ''POST'' (User (Some ''alice'')) two_files_to_docs
     \<lparr>world = readonly_repo, log = []\<rparr> =
   Some (HttpResponse 500
           (ErrorReply ''Insufficient permissions. Please check your GitHub access settings.''),
         \<lparr>world = readonly_repo,
          log = [(Call ''alice'' ''site'' (GetContents ''a.txt'' ''main''),
                  Response 200 (FileBody ''hello'' ''sha-hello'')),
                 (Call ''alice'' ''site'' (GetContents ''docs/a.txt'' ''main''),
                  Response 404 OtherBody),
                 (Call ''alice'' ''site''
                    (PutContents ''docs/a.txt'' ''Move a.txt to docs/a.txt'' (Some ''hello'')
                       ''main'' None),
                  Response 403 OtherBody)]\<rparr>)"
  using two_files_to_docs_valid
  apply (simp add: move_files_def)
  apply (simp add: two_files_to_docs_def readonly_repo_def move_item_def moveSingleFile_def
      fetch_def ok_def sourceDir_of_def fileName_of_def startsWith_def slice_to_def
      sanitizeGitHubError_def Let_def)
  done

text \<open>
  C4, amended. When the handler has admitted the request and the loop body throws at an
  item (the relocation of a file failed, or of a file under a directory, or the listing
  threw), the handler stops there: its answer is 500 with the error's message, without
  counts or outcomes for the items done before, and the final state is the state at the
  exception, so no call is issued for the items after it.
\<close>

theorem move_files_stops_at_first_failure:
  assumes meth: "method \<noteq> ''OPTIONS''"
    and valid: "moveFilesSchema req"
    and owner: "session = User (Some (mq_owner req))"
    and files: "mq_files req = before @ file # rest"
    and before: "move_loop fuel gh (mq_owner req) (mq_repo req)
                   (case mq_branch req of None \<Rightarrow> ''main'' | Some b \<Rightarrow> b)
                   (mq_destination req) before
                   \<lparr>movedCount = 0, skippedCount = 0, details = []\<rparr> s =
                 Some (Continue t1, s1)"
    and failed: "move_item fuel gh (mq_owner req) (mq_repo req)
                   (case mq_branch req of None \<Rightarrow> ''main'' | Some b \<Rightarrow> b)
                   (mq_destination req) file t1 s1 =
                 Some (Threw (Error m), s2)"
  shows "move_files fuel gh method session req s =
           Some (HttpResponse 500 (ErrorReply m), s2)"
proof -
  have nonempty: "mq_owner req \<noteq> []"
    using valid by (auto simp: moveFilesSchema_def ownerField_def)
  have "move_loop fuel gh (mq_owner req) (mq_repo req)
          (case mq_branch req of None \<Rightarrow> ''main'' | Some b \<Rightarrow> b)
          (mq_destination req) (mq_files req)
          \<lparr>movedCount = 0, skippedCount = 0, details = []\<rparr> s =
        Some (Threw (Error m), s2)"
    unfolding files move_loop_append using before failed by simp
  then show ?thesis
    using meth valid owner nonempty by (simp add: move_files_def)
qed

text \<open>The request of the counterexample, through the theorem.\<close>

theorem move_files_stops_at_first_failure_witness:
  "''POST'' \<noteq> ''OPTIONS'' \<and> moveFilesSchema two_files_to_docs \<and>
   mq_files two_files_to_docs =
     [] @ \<lparr>fe_path = ''a.txt'', fe_sha = ''sha-hello'', fe_type = File\<rparr> #
     [\<lparr>fe_path = ''x/b.txt'', fe_sha = ''sha-bye'', fe_type = File\<rparr>] \<and>
   map_option fst
     (move_item 0 github ''alice'' ''site'' ''main'' ''docs''
        \<lparr>fe_path = ''a.txt'', fe_sha = ''sha-hello'', fe_type = File\<rparr>
        \<lparr>movedCount = 0, skippedCount = 0, details = []\<rparr>
        \<lparr>world = readonly_repo, log = []\<rparr>) =
     Some (Threw (Error ''Insufficient permissions. Please check your GitHub access settings.'')) \<and>
   map_option fst
     (move_files 0 github ''POST'' (User (Some ''alice'')) two_files_to_docs
        \<lparr>world = readonly_repo, log = []\<rparr>) =
     Some (HttpResponse 500
             (ErrorReply ''Insufficient permissions. Please check your GitHub access settings.'')) \<and>
   map_option (\<lambda>out. length (log (snd out)))
     (move_files 0 github ''POST'' (User (Some ''alice'')) two_files_to_docs
        \<lparr>world = readonly_repo, log = []\<rparr>) = Some 3"
proof -
  let ?s = "\<lparr>world = readonly_repo, log = []\<rparr>"
  let ?t = "\<lparr>movedCount = 0, skippedCount = 0, details = []\<rparr>"
  let ?a = "\<lparr>fe_path = ''a.txt'', fe_sha = ''sha-hello'', fe_type = File\<rparr>"
  let ?b = "\<lparr>fe_path = ''x/b.txt'', fe_sha = ''sha-bye'', fe_type = File\<rparr>"
  let ?s2 = "\<lparr>world = readonly_repo,
          log = [(Call ''alice'' ''site'' (GetContents ''a.txt'' ''main''),
                  Response 200 (FileBody ''hello'' ''sha-hello'')),
                 (Call ''alice'' ''site'' (GetContents ''docs/a.txt'' ''main''),
                  Response 404 OtherBody),
                 (Call ''alice'' ''site''
                    (PutContents ''docs/a.txt'' ''Move a.txt to docs/a.txt'' (Some ''hello'')
                       ''main'' None),
                  Response 403 OtherBody)]\<rparr>"
  have meth: "''POST'' \<noteq> ''OPTIONS''" by simp
  have owner: "User (Some ''alice'') = User (Some (mq_owner two_files_to_docs))"
    by (simp add: two_files_to_docs_def)
  have files: "mq_files two_files_to_docs = [] @ ?a # [?b]"
    by (simp add: two_files_to_docs_def)
  have before: "move_loop 0 github (mq_owner two_files_to_docs) (mq_repo two_files_to_docs)
                   (case mq_branch two_files_to_docs of None \<Rightarrow> ''main'' | Some b \<Rightarrow> b)
                   (mq_destination two_files_to_docs) [] ?t ?s = Some (Continue ?t, ?s)"
    by simp
  have item: "move_item 0 github ''alice'' ''site'' ''main'' ''docs'' ?a ?t ?s =
      Some (Threw (Error ''Insufficient permissions. Please check your GitHub access settings.''),
            ?s2)"
    by (simp add: readonly_repo_def move_item_def moveSingleFile_def
      fetch_def ok_def sourceDir_of_def fileName_of_def startsWith_def slice_to_def
      sanitizeGitHubError_def Let_def)
  have failed: "move_item 0 github (mq_owner two_files_to_docs) (mq_repo two_files_to_docs)
                   (case mq_branch two_files_to_docs of None \<Rightarrow> ''main'' | Some b \<Rightarrow> b)
                   (mq_destination two_files_to_docs) ?a ?t ?s =
      Some (Threw (Error ''Insufficient permissions. Please check your GitHub access settings.''),
            ?s2)"
    using item by (simp add: two_files_to_docs_def)
  from move_files_stops_at_first_failure[OF meth two_files_to_docs_valid owner files before failed]
  have "move_files 0 github ''POST'' (User (Some ''alice'')) two_files_to_docs ?s =
     Some (HttpResponse 500
             (ErrorReply ''Insufficient permissions. Please check your GitHub access settings.''),
           ?s2)" .
  then show ?thesis using two_files_to_docs_valid files item by simp
qed

text \<open>
  C5. In every run of the delete handler on a directory in which a call before the PATCH
  of the branch ref (resolve the tip, get the commit, fetch the recursive tree, create the
  tree, create the commit) did not return ok, the PATCH of the ref is not among the calls
  issued, the handler answers with an error and a status that is not ok, and on a host
  where reading and creating objects leave the branch where it points, the branch points
  at the commit it pointed at before the run.
\<close>

theorem delete_directory_failure_leaves_branch:
  assumes run: "delete_file gh method session req s = (resp, s')"
    and dir: "dq_type req = Some Dir"
    and new: "log s' = log s @ new"
    and failed: "preparation_failed new"
  shows "list_all (\<lambda>e. \<not> is_patch_ref (fst e)) new \<and>
         (\<exists>st m. resp = HttpResponse st (ErrorReply m) \<and> \<not> ok st) \<and>
         (branch_moves_only_by_ref_or_contents gh tip_of \<longrightarrow>
            tip_of (world s') = tip_of (world s))"
proof -
  have nonempty: "new \<noteq> []" using failed by (auto simp: preparation_failed_def)
  then have moved: "s' \<noteq> s" using new by auto
  let ?branchName = "case dq_branch req of None \<Rightarrow> ''main''
                     | Some b \<Rightarrow> if b = [] then ''main'' else b"
  obtain res where
    dd: "delete_directory gh (dq_owner req) (dq_repo req) ?branchName (dq_path req) s = (res, s')"
    and resp: "resp = (case res of Inl (Error m) \<Rightarrow> HttpResponse 500 (ErrorReply m) | Inr r \<Rightarrow> r)"
    using run dir moved
    by (auto simp: delete_file_def Let_def
        split: if_split_asm session.splits option.splits prod.splits sum.splits exn.splits)
  from delete_directory_trace[OF dd] new
  have rp: "replays gh (world s) new (world s')"
    and a: "list_ex (\<lambda>e. is_patch_ref (fst e)) new \<longrightarrow> \<not> preparation_failed new"
    and b: "\<not> list_ex (\<lambda>e. is_patch_ref (fst e)) new \<longrightarrow>
              list_all (\<lambda>e. \<not> moves_branch (fst e)) new \<and>
              ((\<exists>e. res = Inl e) \<or>
               (\<exists>st m. res = Inr (HttpResponse st (ErrorReply m)) \<and> \<not> ok st))"
    by auto
  from a failed have np: "\<not> list_ex (\<lambda>e. is_patch_ref (fst e)) new" by blast
  with b have nm: "list_all (\<lambda>e. \<not> moves_branch (fst e)) new"
    and err: "(\<exists>e. res = Inl e) \<or>
               (\<exists>st m. res = Inr (HttpResponse st (ErrorReply m)) \<and> \<not> ok st)"
    by blast+
  have "\<exists>st m. resp = HttpResponse st (ErrorReply m) \<and> \<not> ok st"
    using err resp by (auto simp: ok_def split: exn.splits)
  moreover have "tip_of (world s') = tip_of (world s)"
    if "branch_moves_only_by_ref_or_contents gh tip_of"
    using replays_keeps_tip[OF that rp nm] .
  ultimately show ?thesis using not_list_ex_patch[OF np] by blast
qed

text \<open>
  The run of C5 on the in-memory host behind a token that may not write: the tip, the
  commit and the tree are read, creating the tree is refused.
\<close>

theorem delete_directory_failure_leaves_branch_witness:
  "dq_type delete_x = Some Dir \<and>
   preparation_failed
     (log (snd (delete_file github ''POST'' (User (Some ''alice'')) delete_x
                  \<lparr>world = readonly_repo, log = []\<rparr>))) \<and>
   list_all (\<lambda>e. \<not> is_patch_ref (fst e))
     (log (snd (delete_file github ''POST'' (User (Some ''alice'')) delete_x
                  \<lparr>world = readonly_repo, log = []\<rparr>))) \<and>
   fst (delete_file github ''POST'' (User (Some ''alice'')) delete_x
          \<lparr>world = readonly_repo, log = []\<rparr>) =
     HttpResponse 403 (ErrorReply ''Failed to create new tree'') \<and>
   tip (world (snd (delete_file github ''POST'' (User (Some ''alice'')) delete_x
                      \<lparr>world = readonly_repo, log = []\<rparr>))) = ''c0''"
proof -
  let ?s = "\<lparr>world = readonly_repo, log = []\<rparr>"
  let ?run = "delete_file github ''POST'' (User (Some ''alice'')) delete_x ?s"
  have run: "?run = (fst ?run, snd ?run)" by simp
  have dir: "dq_type delete_x = Some Dir" by (simp add: delete_x_def)
  have new: "log (snd ?run) = log ?s @ log (snd ?run)" by simp
  have valid: "deleteFileSchema delete_x"
    by (simp add: deleteFileSchema_def delete_x_def ownerField_def repoField_def alnum_def
        startsWith_def)
  have evaluated: "?run =
     (HttpResponse 403 (ErrorReply ''Failed to create new tree''),
      \<lparr>world = readonly_repo,
       log = [(Call ''alice'' ''site'' (GetRef ''main''), Response 200 (RefBody ''c0'')),
              (Call ''alice'' ''site'' (GetCommit ''c0''), Response 200 (CommitBody ''tree-c0'')),
              (Call ''alice'' ''site'' (GetTree ''tree-c0''),
               Response 200
                 (TreeBody
                    [\<lparr>ti_path = ''a.txt'', ti_mode = ''100644'', ti_type = ''blob'',
                      ti_sha = ''sha-hello'', ti_size = None, ti_url = []\<rparr>,
                     \<lparr>ti_path = ''x/b.txt'', ti_mode = ''100644'', ti_type = ''blob'',
                      ti_sha = ''sha-bye'', ti_size = None, ti_url = []\<rparr>])),
              (Call ''alice'' ''site''
                 (PostTree [\<lparr>te_path = ''a.txt'', te_mode = ''100644'', te_type = ''blob'',
                             te_sha = ''sha-hello''\<rparr>]),
               Response 403 OtherBody)]\<rparr>)"
    using valid
    by (simp add: delete_file_def delete_directory_def fetch_def ok_def newTree_def
        startsWith_def endsWith_def)
       (simp add: delete_x_def readonly_repo_def)
  have failed: "preparation_failed (log (snd ?run))"
    unfolding evaluated by (simp add: preparation_failed_def ok_def)
  from delete_directory_failure_leaves_branch[OF run dir new failed, where tip_of = tip]
    github_branch_moves_only_by_ref_or_contents
  have "list_all (\<lambda>e. \<not> is_patch_ref (fst e)) (log (snd ?run))"
    and "tip (world (snd ?run)) = tip (world ?s)"
    by auto
  moreover have "fst ?run = HttpResponse 403 (ErrorReply ''Failed to create new tree'')"
    unfolding evaluated by simp
  ultimately show ?thesis using dir failed by (simp add: readonly_repo_def)
qed









text \<open>
  C10. When a directory item passes the loop's guards and the host answers the listing of
  the directory with a status that is not ok, \<open>listFilesRecursively\<close> returns the empty
  list at every positive depth (the one call it issued is the refused listing); the
  loop body ends without an exception and with the counts and details as they were; and
  the loop goes on with the remaining items. Nothing in the outcome tells the caller that
  the listing failed.
\<close>

theorem move_loop_masks_refused_listing:
  assumes dir: "fe_type file = Dir"
    and elsewhere: "destination \<noteq> sourceDir_of (fe_path file)"
    and outside: "\<not> (destination = fe_path file \<or>
                     (destination \<noteq> [] \<and> startsWith destination (fe_path file @ ''/'')))"
    and listing: "fetch gh (Call owner repo (GetContents (fe_path file) branch)) s =
                    (Response st b, s1)"
    and refused: "\<not> ok st"
  shows "listFilesRecursively (Suc fuel) gh owner repo branch (fe_path file) s =
           Some (Inr [], s1) \<and>
         log s1 = log s @ [(Call owner repo (GetContents (fe_path file) branch), Response st b)] \<and>
         move_item (Suc fuel) gh owner repo branch destination file t s =
           Some (Continue t, s1) \<and>
         move_loop (Suc fuel) gh owner repo branch destination (file # rest) t s =
           move_loop (Suc fuel) gh owner repo branch destination rest t s1"
proof -
  have l: "listFilesRecursively (Suc fuel) gh owner repo branch (fe_path file) s =
           Some (Inr [], s1)"
    using listing refused by simp
  have i: "move_item (Suc fuel) gh owner repo branch destination file t s =
           Some (Continue t, s1)"
    using dir elsewhere outside
    by (simp add: move_item_def l Let_def del: listFilesRecursively.simps)
  show ?thesis using l i fetch_log[OF listing] by simp
qed

text \<open>
  The request for \<open>src/utils\<close> against a host that answers the listing with 404: the
  handler replies success with no file moved, none skipped and no detail.
\<close>

theorem move_loop_masks_refused_listing_witness:
  "fe_type \<lparr>fe_path = ''src/utils'', fe_sha = ''sha-u'', fe_type = Dir\<rparr> = Dir \<and>
   ''lib'' \<noteq> sourceDir_of ''src/utils'' \<and>
   \<not> startsWith ''lib'' (''src/utils'' @ ''/'') \<and>
   fetch scripted (Call ''alice'' ''site'' (GetContents ''src/utils'' ''main''))
     \<lparr>world = [Response 404 OtherBody], log = []\<rparr> =
     (Response 404 OtherBody,
      \<lparr>world = [],
       log = [(Call ''alice'' ''site'' (GetContents ''src/utils'' ''main''),
               Response 404 OtherBody)]\<rparr>) \<and>
   \<not> ok 404 \<and>
   move_files 1 scripted ''POST'' (User (Some ''alice'')) move_utils_to_lib
     \<lparr>world = [Response 404 OtherBody], log = []\<rparr> =
     Some (HttpResponse 200 (MoveReply 0 0 []),
           \<lparr>world = [],
            log = [(Call ''alice'' ''site'' (GetContents ''src/utils'' ''main''),
                    Response 404 OtherBody)]\<rparr>)"
proof -
  let ?file = "\<lparr>fe_path = ''src/utils'', fe_sha = ''sha-u'', fe_type = Dir\<rparr>"
  let ?s = "\<lparr>world = [Response 404 OtherBody], log = []\<rparr>"
  let ?s1 = "\<lparr>world = [],
       log = [(Call ''alice'' ''site'' (GetContents ''src/utils'' ''main''),
               Response 404 OtherBody)]\<rparr>"
  have dir: "fe_type ?file = Dir" by simp
  have elsewhere: "''lib'' \<noteq> sourceDir_of (fe_path ?file)"
    by (simp add: sourceDir_of_def startsWith_def slice_to_def)
  have outside: "\<not> (''lib'' = fe_path ?file \<or>
                     (''lib'' \<noteq> [] \<and> startsWith ''lib'' (fe_path ?file @ ''/'')))"
    by (simp add: startsWith_def)
  have listing: "fetch scripted (Call ''alice'' ''site'' (GetContents (fe_path ?file) ''main'')) ?s =
                    (Response 404 OtherBody, ?s1)"
    by (simp add: fetch_def)
  have refused: "\<not> ok 404" by (simp add: ok_def)
  from move_loop_masks_refused_listing[OF dir elsewhere outside listing refused,
      where fuel = 0 and rest = "[]" and t = "\<lparr>movedCount = 0, skippedCount = 0, details = []\<rparr>"]
  have "move_loop 1 scripted ''alice'' ''site'' ''main'' ''lib'' [?file]
          \<lparr>movedCount = 0, skippedCount = 0, details = []\<rparr> ?s =
        Some (Continue \<lparr>movedCount = 0, skippedCount = 0, details = []\<rparr>, ?s1)"
    by simp
  then have "move_files 1 scripted ''POST'' (User (Some ''alice'')) move_utils_to_lib ?s =
     Some (HttpResponse 200 (MoveReply 0 0 []), ?s1)"
    using move_utils_to_lib_valid
    by (simp add: move_files_def) (simp add: move_utils_to_lib_def)
  then show ?thesis using elsewhere outside listing refused by simp
qed

end
